theory Spec2Isabelle
  imports Complex_Main "HOL-Library.Word"
begin

section \<open>Numbers, vectors and matrices\<close>

text \<open>
  The algorithm of \<^verbatim>\<open>xnes.hpp\<close> computes on \<^verbatim>\<open>double\<close>. Here a
  \<^verbatim>\<open>double\<close> is a real number: rounding, infinities and NaN are left out, and
  \<^verbatim>\<open>std::log\<close>, \<^verbatim>\<open>std::exp\<close>, \<^verbatim>\<open>std::sqrt\<close> are \<open>ln\<close>, \<open>exp\<close>
  and \<open>sqrt\<close>. The counters of type \<^verbatim>\<open>unsigned int\<close> are 32-bit words, the evaluation
  counter of type \<^verbatim>\<open>unsigned long long\<close> is a 64-bit word, and sizes and indices
  (\<^verbatim>\<open>size_type\<close>) are natural numbers.

  A \<^verbatim>\<open>vector_double\<close> and an \<^verbatim>\<open>Eigen::VectorXd\<close> are lists of reals, an
  \<^verbatim>\<open>Eigen::MatrixXd\<close> is the list of its rows. The dense operations of Eigen that
  \<^verbatim>\<open>evolve\<close> calls are written out on lists; the matrix exponential
  (\<^verbatim>\<open>d_A.exp()\<close>) is a parameter \<open>mexp\<close> of every function that needs it.
\<close>

type_synonym vector_double = "real list"
type_synonym VectorXd = "real list"
type_synonym MatrixXd = "real list list"

definition VectorXd_Zero :: "nat \<Rightarrow> VectorXd" where
  "VectorXd_Zero n = replicate n 0"

definition MatrixXd_Identity :: "nat \<Rightarrow> nat \<Rightarrow> MatrixXd" where
  "MatrixXd_Identity r c = map (\<lambda>j. map (\<lambda>k. if j = k then 1 else 0) [0..<c]) [0..<r]"

definition set_coeff :: "MatrixXd \<Rightarrow> nat \<Rightarrow> nat \<Rightarrow> real \<Rightarrow> MatrixXd" where
  "set_coeff M j k v = M[j := (M ! j)[k := v]]"

definition vec_add :: "VectorXd \<Rightarrow> VectorXd \<Rightarrow> VectorXd" where
  "vec_add a b = map2 (+) a b"

definition vec_scale :: "real \<Rightarrow> VectorXd \<Rightarrow> VectorXd" where
  "vec_scale c a = map ((*) c) a"

definition dot :: "VectorXd \<Rightarrow> VectorXd \<Rightarrow> real" where
  "dot a b = sum_list (map2 (*) a b)"

definition vec_norm :: "VectorXd \<Rightarrow> real" where
  "vec_norm a = sqrt (dot a a)"

definition mat_add :: "MatrixXd \<Rightarrow> MatrixXd \<Rightarrow> MatrixXd" where
  "mat_add M N = map2 vec_add M N"

definition mat_sub :: "MatrixXd \<Rightarrow> MatrixXd \<Rightarrow> MatrixXd" where
  "mat_sub M N = map2 (map2 (-)) M N"

definition mat_scale :: "real \<Rightarrow> MatrixXd \<Rightarrow> MatrixXd" where
  "mat_scale c M = map (vec_scale c) M"

definition mat_vec :: "MatrixXd \<Rightarrow> VectorXd \<Rightarrow> VectorXd" where
  "mat_vec M v = map (\<lambda>row. dot row v) M"

definition mat_cols :: "MatrixXd \<Rightarrow> nat" where
  "mat_cols M = (case M of [] \<Rightarrow> 0 | row # _ \<Rightarrow> length row)"

definition mat_mul :: "MatrixXd \<Rightarrow> MatrixXd \<Rightarrow> MatrixXd" where
  "mat_mul M N = map (\<lambda>row. map (\<lambda>k. dot row (map (\<lambda>r. r ! k) N)) [0..<mat_cols N]) M"

definition outer :: "VectorXd \<Rightarrow> MatrixXd" where
  "outer v = map (\<lambda>a. map (\<lambda>b. a * b) v) v"

definition trace :: "MatrixXd \<Rightarrow> real" where
  "trace M = sum_list (map (\<lambda>j. M ! j ! j) [0..<length M])"

section \<open>The random engine\<close>

text \<open>
  Modelled from the spec: the pseudorandom engine \<^verbatim>\<open>detail::random_engine_type\<close>
  (declared in \<^verbatim>\<open>pagmo/rng.hpp\<close>) and the three standard distributions drawn from it.
  The spec says: a single engine owned by the algorithm instance, mutated by every
  stochastic draw, persisting across calls. The engine is a tape for each distribution
  and the number of draws made so far; a draw reads its tape at that position and
  advances the position.
\<close>

record random_engine =
  normal_tape :: "nat \<Rightarrow> real"
  uniform_tape :: "nat \<Rightarrow> real"
  uint_tape :: "nat \<Rightarrow> 32 word"
  draws :: nat

definition normally_distributed_number :: "random_engine \<Rightarrow> real \<times> random_engine" where
  "normally_distributed_number e = (normal_tape e (draws e), e\<lparr>draws := Suc (draws e)\<rparr>)"

definition randomly_distributed_number :: "random_engine \<Rightarrow> real \<times> random_engine" where
  "randomly_distributed_number e = (uniform_tape e (draws e), e\<lparr>draws := Suc (draws e)\<rparr>)"

definition uniform_int_distribution :: "random_engine \<Rightarrow> 32 word \<times> random_engine" where
  "uniform_int_distribution e = (uint_tape e (draws e), e\<lparr>draws := Suc (draws e)\<rparr>)"

section \<open>Problem and population\<close>

text \<open>
  Modelled from the spec: \<^verbatim>\<open>pagmo::problem\<close> and \<^verbatim>\<open>pagmo::population\<close>
  (\<^verbatim>\<open>pagmo/population.hpp\<close>), which the spec treats as external collaborators: a
  problem exposing dimensionality, box bounds, objective count, constraint count, a
  stochasticity flag with a reseed method and a cumulative evaluation counter; a
  population exposing size, per-individual decision and fitness vectors, best and worst
  index queries, and a mutator that overwrites an individual's decision vector and
  re-evaluates it. The objective takes the problem's seed, so that a stochastic problem
  depends on it.
\<close>

record problem =
  nx :: nat
  lower_bounds :: vector_double
  upper_bounds :: vector_double
  nf :: nat
  nc :: nat
  fevals :: "64 word"
  is_stochastic :: bool
  problem_seed :: "32 word"
  objfun :: "32 word \<Rightarrow> vector_double \<Rightarrow> vector_double"

record population =
  get_problem :: problem
  get_x :: "vector_double list"
  get_f :: "vector_double list"

definition pop_size :: "population \<Rightarrow> nat" where
  "pop_size p = length (get_x p)"

definition set_seed_problem :: "population \<Rightarrow> 32 word \<Rightarrow> population" where
  "set_seed_problem p s = p\<lparr>get_problem := (get_problem p)\<lparr>problem_seed := s\<rparr>\<rparr>"

definition set_x :: "population \<Rightarrow> nat \<Rightarrow> vector_double \<Rightarrow> population" where
  "set_x p i v =
     (let pr = get_problem p
      in p\<lparr>get_problem := pr\<lparr>fevals := fevals pr + 1\<rparr>,
           get_x := (get_x p)[i := v],
           get_f := (get_f p)[i := objfun pr (problem_seed pr) v]\<rparr>)"

text \<open>The index of the first smallest (largest) element, as \<^verbatim>\<open>std::min_element\<close>
  (\<^verbatim>\<open>std::max_element\<close>) finds it.\<close>

fun min_element_from :: "nat \<Rightarrow> real \<Rightarrow> nat \<Rightarrow> real list \<Rightarrow> nat" where
  "min_element_from bi bv i [] = bi"
| "min_element_from bi bv i (w # ws) =
     (if w < bv then min_element_from i w (Suc i) ws else min_element_from bi bv (Suc i) ws)"

fun max_element_from :: "nat \<Rightarrow> real \<Rightarrow> nat \<Rightarrow> real list \<Rightarrow> nat" where
  "max_element_from bi bv i [] = bi"
| "max_element_from bi bv i (w # ws) =
     (if bv < w then max_element_from i w (Suc i) ws else max_element_from bi bv (Suc i) ws)"

definition best_idx :: "population \<Rightarrow> nat" where
  "best_idx p = (case map (\<lambda>f. f ! 0) (get_f p) of [] \<Rightarrow> 0 | v # vs \<Rightarrow> min_element_from 0 v 1 vs)"

definition worst_idx :: "population \<Rightarrow> nat" where
  "worst_idx p = (case map (\<lambda>f. f ! 0) (get_f p) of [] \<Rightarrow> 0 | v # vs \<Rightarrow> max_element_from 0 v 1 vs)"

section \<open>The algorithm instance\<close>

type_synonym log_line_type = "32 word \<times> 64 word \<times> real \<times> real \<times> real \<times> real"

record xnes =
  m_gen :: "32 word"
  m_eta_mu :: real
  m_eta_sigma :: real
  m_eta_b :: real
  m_sigma0 :: real
  m_ftol :: real
  m_xtol :: real
  m_memory :: bool
  sigma :: real
  mean :: VectorXd
  A :: MatrixXd
  m_e :: random_engine
  m_seed :: "32 word"
  m_verbosity :: "32 word"
  m_log :: "log_line_type list"

text \<open>Every exception of the file is a \<^verbatim>\<open>std::invalid_argument\<close>; the constructors
  tell the throwing statements apart.\<close>

datatype invalid_argument =
  Bad_eta_mu | Bad_eta_sigma | Bad_eta_b | Bad_sigma0
| Nonlinear_constraints | Multiple_objectives | Too_few_individuals

text \<open>The constructor. \<open>engine\<close> stands for seeding the engine, \<^verbatim>\<open>m_e(seed)\<close>.\<close>

definition xnes_ctor ::
  "(32 word \<Rightarrow> random_engine) \<Rightarrow> 32 word \<Rightarrow> real \<Rightarrow> real \<Rightarrow> real \<Rightarrow> real \<Rightarrow> real \<Rightarrow> real \<Rightarrow> bool
     \<Rightarrow> 32 word \<Rightarrow> invalid_argument + xnes" where
  "xnes_ctor engine gen eta_mu eta_sigma eta_b sigma0 ftol xtol memory seed =
     (if (eta_mu \<le> 0 \<or> eta_mu > 1) \<and> \<not> (eta_mu = -1) then Inl Bad_eta_mu
      else if (eta_sigma \<le> 0 \<or> eta_sigma > 1) \<and> \<not> (eta_sigma = -1) then Inl Bad_eta_sigma
      else if (eta_b \<le> 0 \<or> eta_b > 1) \<and> \<not> (eta_b = -1) then Inl Bad_eta_b
      else if (sigma0 \<le> 0 \<or> sigma0 > 1) \<and> \<not> (sigma0 = -1) then Inl Bad_sigma0
      else Inr \<lparr>m_gen = gen, m_eta_mu = eta_mu, m_eta_sigma = eta_sigma, m_eta_b = eta_b,
                m_sigma0 = sigma0, m_ftol = ftol, m_xtol = xtol, m_memory = memory,
                sigma = sigma0, mean = VectorXd_Zero 1, A = MatrixXd_Identity 1 1,
                m_e = engine seed, m_seed = seed, m_verbosity = 0, m_log = []\<rparr>)"

definition set_verbosity :: "xnes \<Rightarrow> 32 word \<Rightarrow> xnes" where
  "set_verbosity alg level = alg\<lparr>m_verbosity := level\<rparr>"

definition get_log :: "xnes \<Rightarrow> log_line_type list" where
  "get_log alg = m_log alg"

section \<open>The parts of evolve\<close>

text \<open>
  Lines 224 to 235. Each condition is the assignment \<^verbatim>\<open>eta_mu = -1\<close>, not a
  comparison: it stores \<open>-1\<close> in the local variable and is true when the stored value
  is not zero.
\<close>

definition learning_rates :: "xnes \<Rightarrow> nat \<Rightarrow> real \<times> real \<times> real" where
  "learning_rates alg D =
     (let N = real D;
          eta_mu = m_eta_mu alg; eta_sigma = m_eta_sigma alg; eta_b = m_eta_b alg;
          eta_mu = (-1::real);
          eta_mu = (if eta_mu \<noteq> 0 then 1 else eta_mu);
          common_default = 0.6 * (3 + ln N) / (N * sqrt N);
          eta_sigma = (-1::real);
          eta_sigma = (if eta_sigma \<noteq> 0 then common_default else eta_sigma);
          eta_b = (-1::real);
          eta_b = (if eta_b \<noteq> 0 then common_default else eta_b)
      in (eta_mu, eta_sigma, eta_b))"

text \<open>Lines 236 to 247: the utility function \<open>u\<close>, in three loops.\<close>

definition utility_raw :: "nat \<Rightarrow> real list" where
  "utility_raw lam =
     fold (\<lambda>i u. u[i := max 0 (ln (real lam / 2 + 1) - ln (real (i + 1)))]) [0..<lam]
       (replicate lam 0)"

definition utility :: "nat \<Rightarrow> real list" where
  "utility lam =
     (let u = utility_raw lam;
          sum = fold (\<lambda>i s. s + u ! i) [0..<length u] 0
      in fold (\<lambda>i u. u[i := u ! i / sum - 1 / real lam]) [0..<length u] u)"

text \<open>Lines 250 to 267: the memory is redefined, or kept.\<close>

definition reset_or_retain :: "xnes \<Rightarrow> population \<Rightarrow> xnes" where
  "reset_or_retain alg pop =
     (let D = nx (get_problem pop);
          lb = lower_bounds (get_problem pop); ub = upper_bounds (get_problem pop)
      in if length (mean alg) \<noteq> D \<or> m_memory alg = False then
           (let sigma1 = (if m_sigma0 alg = -1 then 1 else m_sigma0 alg);
                A1 = fold (\<lambda>j M. set_coeff M j j (max (ub ! j - lb ! j) (1 / 10 ^ 6) * sigma1))
                       [0..<D] (MatrixXd_Identity D D);
                idx_b = best_idx pop;
                mean1 = fold (\<lambda>i m. m[i := get_x pop ! idx_b ! i]) [0..<D]
                          (take D (mean alg) @ replicate (D - length (mean alg)) 0)
            in alg\<lparr>sigma := sigma1, A := A1, mean := mean1\<rparr>)
         else alg)"

text \<open>
  The state that the generation loop works on: the algorithm instance with its mutable
  members, the population (a copy owned by the call), and the local vectors \<^verbatim>\<open>z\<close>
  and \<^verbatim>\<open>x\<close> of noise and candidate vectors.
\<close>

type_synonym evolve_state = "xnes \<times> population \<times> VectorXd list \<times> VectorXd list"

text \<open>Lines 286 to 290: a stochastic problem gets a new seed, drawn from \<^verbatim>\<open>m_e\<close>.\<close>

definition change_seed :: "evolve_state \<Rightarrow> evolve_state" where
  "change_seed s =
     (case s of (alg, pop, z, x) \<Rightarrow>
        if is_stochastic (get_problem pop) then
          (let (r, e) = uniform_int_distribution (m_e alg)
           in (alg\<lparr>m_e := e\<rparr>, set_seed_problem pop r, z, x))
        else s)"

text \<open>Lines 294 to 296: the noise vector of one individual.\<close>

definition sample_z :: "nat \<Rightarrow> VectorXd \<Rightarrow> random_engine \<Rightarrow> VectorXd \<times> random_engine" where
  "sample_z D zi e =
     fold (\<lambda>j (zi, e). (let (r, e') = normally_distributed_number e in (zi[j := r], e')))
       [0..<D] (zi, e)"

text \<open>Lines 300 to 306: the coordinates out of the bounds are drawn again; only \<open>x\<close> is
  changed. (The flag \<^verbatim>\<open>changed\<close> is never read.)\<close>

definition fix_bounds ::
  "nat \<Rightarrow> vector_double \<Rightarrow> vector_double \<Rightarrow> VectorXd \<Rightarrow> random_engine \<Rightarrow> VectorXd \<times> random_engine" where
  "fix_bounds D lb ub xi e =
     fold (\<lambda>j (xi, e).
             if xi ! j < lb ! j \<or> xi ! j > ub ! j then
               (let (r, e') = randomly_distributed_number e
                in (xi[j := lb ! j + r * (ub ! j - lb ! j)], e'))
             else (xi, e))
       [0..<D] (xi, e)"

text \<open>Lines 292 to 311, the body of the loop over \<open>i\<close>. The temporary \<^verbatim>\<open>dumb\<close> has
  \<open>D\<close> entries, all of them overwritten before it is read.\<close>

definition new_individual ::
  "nat \<Rightarrow> vector_double \<Rightarrow> vector_double \<Rightarrow> nat \<Rightarrow> evolve_state \<Rightarrow> evolve_state" where
  "new_individual D lb ub i s =
     (case s of (alg, pop, z, x) \<Rightarrow>
        (let (zi, e1) = sample_z D (z ! i) (m_e alg);
             z = z[i := zi];
             xi = vec_add (mean alg) (mat_vec (A alg) (z ! i));
             (xi, e2) = fix_bounds D lb ub xi e1;
             x = x[i := xi];
             dumb = fold (\<lambda>j d. d[j := x ! i ! j]) [0..<D] (replicate D 0);
             pop = set_x pop i dumb
         in (alg\<lparr>m_e := e2\<rparr>, pop, z, x)))"

definition new_individuals ::
  "nat \<Rightarrow> vector_double \<Rightarrow> vector_double \<Rightarrow> nat \<Rightarrow> evolve_state \<Rightarrow> evolve_state" where
  "new_individuals D lb ub lam s = fold (new_individual D lb ub) [0..<lam] s"

text \<open>Lines 314 to 332: the exit conditions. \<open>True\<close> is \<^verbatim>\<open>return pop\<close>.\<close>

definition exit_condition :: "32 word \<Rightarrow> evolve_state \<Rightarrow> bool" where
  "exit_condition gen s =
     (case s of (alg, pop, z, x) \<Rightarrow>
        if gen mod 10 = 0 then
          (if vec_norm (mat_vec (A alg) (z ! 0)) < m_xtol alg then True
           else
             (let idx_b = best_idx pop; idx_w = worst_idx pop;
                  delta_f = \<bar>get_f pop ! idx_b ! 0 - get_f pop ! idx_w ! 0\<bar>
              in if delta_f < m_ftol alg then True else False))
        else False)"

text \<open>Lines 334 to 354: the log. What is printed on the screen is left out, and with it
  the counter \<^verbatim>\<open>count\<close> of printed lines.\<close>

definition log_generation :: "64 word \<Rightarrow> 32 word \<Rightarrow> evolve_state \<Rightarrow> evolve_state" where
  "log_generation fevals0 gen s =
     (case s of (alg, pop, z, x) \<Rightarrow>
        if m_verbosity alg > 0 then
          (if gen mod m_verbosity alg = 1 \<or> m_verbosity alg = 1 then
             (let dx = vec_norm (mat_vec (A alg) (z ! 0));
                  idx_b = best_idx pop; idx_w = worst_idx pop;
                  df = \<bar>get_f pop ! idx_b ! 0 - get_f pop ! idx_w ! 0\<bar>
              in (alg\<lparr>m_log := m_log alg @
                    [(gen, fevals (get_problem pop) - fevals0, get_f pop ! idx_b ! 0, dx, df,
                      sigma alg)]\<rparr>, pop, z, x))
           else s)
        else s)"

text \<open>Lines 357 to 361: the indices sorted by fitness. \<^verbatim>\<open>std::sort\<close> may order
  individuals of equal fitness either way; here they keep their order.\<close>

definition sorted_indices :: "population \<Rightarrow> nat \<Rightarrow> nat list" where
  "sorted_indices pop lam = sort_key (\<lambda>a. get_f pop ! a ! 0) [0..<lam]"

text \<open>Lines 363 to 377: the update of the distribution.\<close>

definition d_center_of :: "real list \<Rightarrow> VectorXd list \<Rightarrow> nat list \<Rightarrow> VectorXd" where
  "d_center_of u z s_idx =
     fold (\<lambda>i d. vec_add d (vec_scale (u ! i) (z ! (s_idx ! i)))) [1..<length u]
       (vec_scale (u ! 0) (z ! (s_idx ! 0)))"

definition cov_grad_of :: "nat \<Rightarrow> real list \<Rightarrow> VectorXd list \<Rightarrow> nat list \<Rightarrow> MatrixXd" where
  "cov_grad_of D u z s_idx =
     (let I = MatrixXd_Identity D D
      in fold (\<lambda>i c. mat_add c (mat_scale (u ! i) (mat_sub (outer (z ! (s_idx ! i))) I)))
           [1..<length u]
           (mat_scale (u ! 0) (mat_sub (outer (z ! (s_idx ! 0))) I)))"

definition update_distribution ::
  "(MatrixXd \<Rightarrow> MatrixXd) \<Rightarrow> nat \<Rightarrow> nat \<Rightarrow> real list \<Rightarrow> real \<times> real \<times> real \<Rightarrow> evolve_state
     \<Rightarrow> evolve_state" where
  "update_distribution mexp D lam u etas s =
     (case (etas, s) of ((eta_mu, eta_sigma, eta_b), (alg, pop, z, x)) \<Rightarrow>
        (let s_idx = sorted_indices pop lam;
             I = MatrixXd_Identity D D;
             d_center = d_center_of u z s_idx;
             cov_grad = cov_grad_of D u z s_idx;
             cov_trace = trace cov_grad;
             cov_grad = mat_sub cov_grad (mat_scale (cov_trace / real D) I);
             d_A = mat_scale (1 / 2)
                     (mat_add (mat_scale (eta_sigma * cov_trace / real D) I)
                              (mat_scale eta_b cov_grad))
         in (alg\<lparr>mean := vec_add (mean alg) (mat_vec (mat_scale eta_mu (A alg)) d_center),
                  A := mat_mul (A alg) (mexp d_A),
                  sigma := sigma alg * exp (eta_sigma / 2 * cov_trace / real D)\<rparr>,
             pop, z, x)))"

text \<open>Lines 284 to 378: the body of the loop over \<open>gen\<close>. The first component says
  whether the body has left \<^verbatim>\<open>evolve\<close> through one of the exit conditions.\<close>

definition generation ::
  "(MatrixXd \<Rightarrow> MatrixXd) \<Rightarrow> nat \<Rightarrow> vector_double \<Rightarrow> vector_double \<Rightarrow> nat \<Rightarrow> 64 word \<Rightarrow> real list
     \<Rightarrow> real \<times> real \<times> real \<Rightarrow> 32 word \<Rightarrow> evolve_state \<Rightarrow> bool \<times> evolve_state" where
  "generation mexp D lb ub lam fevals0 u etas gen s =
     (let s = change_seed s;
          s = new_individuals D lb ub lam s
      in if exit_condition gen s then (True, s)
         else (False, update_distribution mexp D lam u etas (log_generation fevals0 gen s)))"

text \<open>
  The loop \<^verbatim>\<open>for (gen = 1u; gen <= m_gen; ++gen)\<close>. The counter is an
  \<^verbatim>\<open>unsigned int\<close>: when \<^verbatim>\<open>m_gen\<close> is the largest one, \<^verbatim>\<open>++gen\<close> wraps to 0
  and the loop goes on, so the loop is a partial function.
\<close>

partial_function (option) generations ::
  "(MatrixXd \<Rightarrow> MatrixXd) \<Rightarrow> nat \<Rightarrow> vector_double \<Rightarrow> vector_double \<Rightarrow> nat \<Rightarrow> 64 word \<Rightarrow> real list
     \<Rightarrow> real \<times> real \<times> real \<Rightarrow> 32 word \<Rightarrow> evolve_state \<Rightarrow> evolve_state option" where
  "generations mexp D lb ub lam fevals0 u etas gen s =
     (if gen \<le> m_gen (fst s) then
        (let r = generation mexp D lb ub lam fevals0 u etas gen s
         in if fst r then Some (snd r)
            else generations mexp D lb ub lam fevals0 u etas (gen + 1) (snd r))
      else Some s)"

section \<open>evolve\<close>

text \<open>
  The result is \<open>None\<close> when the call does not return. Otherwise it is the instance
  after the call, and the exception thrown or the population returned.
\<close>

definition evolve ::
  "(MatrixXd \<Rightarrow> MatrixXd) \<Rightarrow> xnes \<Rightarrow> population \<Rightarrow> (xnes \<times> (invalid_argument + population)) option" where
  "evolve mexp alg pop =
     (let prob = get_problem pop;
          D = nx prob;
          lb = lower_bounds prob; ub = upper_bounds prob;
          lam = pop_size pop;
          prob_f_dimension = nf prob;
          fevals0 = fevals prob
      in if nc prob \<noteq> 0 then Some (alg, Inl Nonlinear_constraints)
         else if prob_f_dimension \<noteq> 1 then Some (alg, Inl Multiple_objectives)
         else if lam < 4 then Some (alg, Inl Too_few_individuals)
         else if m_gen alg = 0 then Some (alg, Inr pop)
         else
           (let alg = alg\<lparr>m_log := []\<rparr>;
                etas = learning_rates alg D;
                u = utility lam;
                alg = reset_or_retain alg pop;
                tmp = VectorXd_Zero D;
                z = replicate lam tmp;
                x = replicate lam tmp
            in map_option (\<lambda>(alg, pop, z, x). (alg, Inr pop))
                 (generations mexp D lb ub lam fevals0 u etas 1 (alg, pop, z, x))))"

section \<open>Properties of the state, and concrete inputs\<close>

text \<open>The configuration of an instance: the members that \<^verbatim>\<open>evolve\<close> only reads.\<close>

definition configuration ::
  "xnes \<Rightarrow> 32 word \<times> real \<times> real \<times> real \<times> real \<times> real \<times> real \<times> bool \<times> 32 word \<times> 32 word" where
  "configuration alg =
     (m_gen alg, m_eta_mu alg, m_eta_sigma alg, m_eta_b alg, m_sigma0 alg, m_ftol alg, m_xtol alg,
      m_memory alg, m_seed alg, m_verbosity alg)"

text \<open>The distribution state of an instance.\<close>

definition distribution :: "xnes \<Rightarrow> VectorXd \<times> MatrixXd \<times> real" where
  "distribution alg = (mean alg, A alg, sigma alg)"

text \<open>An engine whose draws are all zero, and a matrix function, to run the code on
  concrete inputs.\<close>

definition zero_engine :: "32 word \<Rightarrow> random_engine" where
  "zero_engine seed =
     \<lparr>normal_tape = (\<lambda>n. 0), uniform_tape = (\<lambda>n. 0), uint_tape = (\<lambda>n. seed), draws = 0\<rparr>"

definition mexp_id :: "MatrixXd \<Rightarrow> MatrixXd" where
  "mexp_id M = M"

text \<open>The sphere function in one dimension on \<open>[-5, 5]\<close>, and populations on it.\<close>

definition sphere :: problem where
  "sphere =
     \<lparr>nx = 1, lower_bounds = [-5], upper_bounds = [5], nf = 1, nc = 0, fevals = 0,
      is_stochastic = False, problem_seed = 0,
      objfun = (\<lambda>seed v. [sum_list (map (\<lambda>a. a * a) v)])\<rparr>"

definition population4 :: population where
  "population4 =
     \<lparr>get_problem = sphere, get_x = [[1], [2], [3], [4]], get_f = [[1], [4], [9], [16]]\<rparr>"

definition population5 :: population where
  "population5 =
     \<lparr>get_problem = sphere, get_x = [[1], [2], [3], [4], [5]],
      get_f = [[1], [4], [9], [16], [25]]\<rparr>"

definition constrained_population5 :: population where
  "constrained_population5 = population5\<lparr>get_problem := sphere\<lparr>nc := 1\<rparr>\<rparr>"

text \<open>An instance as the constructor makes it, with the three learning rates equal to
  \<open>eta\<close>, the initial scale automatic and the default tolerances.\<close>

definition make_xnes :: "32 word \<Rightarrow> real \<Rightarrow> bool \<Rightarrow> xnes" where
  "make_xnes gen eta memory =
     projr (xnes_ctor zero_engine gen eta eta eta (-1) (1 / 10 ^ 6) (1 / 10 ^ 6) memory 0)"

section \<open>The update of the distribution as the spec writes it\<close>

text \<open>A vector and a square matrix given by their entries.\<close>

definition tabulate_vector :: "nat \<Rightarrow> (nat \<Rightarrow> real) \<Rightarrow> VectorXd" where
  "tabulate_vector D f = map f [0..<D]"

definition tabulate_matrix :: "nat \<Rightarrow> (nat \<Rightarrow> nat \<Rightarrow> real) \<Rightarrow> MatrixXd" where
  "tabulate_matrix D f = map (\<lambda>j. map (f j) [0..<D]) [0..<D]"

text \<open>The noise vectors in rank order: the noise vector of the best individual first.\<close>

definition ranked :: "population \<Rightarrow> nat \<Rightarrow> VectorXd list \<Rightarrow> VectorXd list" where
  "ranked pop lam z = map (\<lambda>a. z ! a) (sorted_indices pop lam)"

text \<open>
  The spec's natural-gradient update, for the ranked noise vectors \<open>zs\<close> and the weights
  \<open>u\<close>: the centroid shift \<open>\<Sum>i. u i * z i\<close>, the covariance gradient
  \<open>\<Sum>i. u i * (z i * (z i)\<^sup>T - I)\<close>, its trace, the combined update
  \<open>d_A = 0.5 * (eta_sigma * (trace / D) * I + eta_b * (cov_grad - (trace / D) * I))\<close>, and
  the new mean \<open>mean + eta_mu * A * d_center\<close>, the new \<open>A * exp d_A\<close> and the new
  \<open>sigma * exp ((eta_sigma / 2) * (trace / D))\<close>.
\<close>

definition spec_d_center :: "nat \<Rightarrow> real list \<Rightarrow> VectorXd list \<Rightarrow> nat \<Rightarrow> real" where
  "spec_d_center lam u zs j = (\<Sum>i<lam. u ! i * zs ! i ! j)"

definition spec_cov_grad :: "nat \<Rightarrow> real list \<Rightarrow> VectorXd list \<Rightarrow> nat \<Rightarrow> nat \<Rightarrow> real" where
  "spec_cov_grad lam u zs j k =
     (\<Sum>i<lam. u ! i * (zs ! i ! j * zs ! i ! k - (if j = k then 1 else 0)))"

definition spec_trace :: "nat \<Rightarrow> nat \<Rightarrow> real list \<Rightarrow> VectorXd list \<Rightarrow> real" where
  "spec_trace D lam u zs = (\<Sum>j<D. spec_cov_grad lam u zs j j)"

definition spec_d_A :: "nat \<Rightarrow> nat \<Rightarrow> real list \<Rightarrow> real \<Rightarrow> real \<Rightarrow> VectorXd list \<Rightarrow> MatrixXd" where
  "spec_d_A D lam u eta_sigma eta_b zs =
     tabulate_matrix D
       (\<lambda>j k. 1 / 2 *
          (eta_sigma * (spec_trace D lam u zs / real D) * (if j = k then 1 else 0) +
           eta_b * (spec_cov_grad lam u zs j k -
                    spec_trace D lam u zs / real D * (if j = k then 1 else 0))))"

definition spec_update ::
  "(MatrixXd \<Rightarrow> MatrixXd) \<Rightarrow> nat \<Rightarrow> nat \<Rightarrow> real list \<Rightarrow> real \<times> real \<times> real \<Rightarrow> VectorXd list
     \<Rightarrow> VectorXd \<times> MatrixXd \<times> real \<Rightarrow> VectorXd \<times> MatrixXd \<times> real" where
  "spec_update mexp D lam u etas zs old =
     (case (etas, old) of ((eta_mu, eta_sigma, eta_b), (mean0, A0, sigma0)) \<Rightarrow>
        (tabulate_vector D
           (\<lambda>j. mean0 ! j + eta_mu * (\<Sum>k<D. A0 ! j ! k * spec_d_center lam u zs k)),
         mat_mul A0 (mexp (spec_d_A D lam u eta_sigma eta_b zs)),
         sigma0 * exp (eta_sigma / 2 * (spec_trace D lam u zs / real D))))"

section \<open>Loops over lists\<close>

lemma fold_assign:
  "n \<le> length xs \<Longrightarrow> fold (\<lambda>i u. u[i := f i]) [0..<n] xs = map f [0..<n] @ drop n xs"
proof (induction n)
  case 0
  then show ?case by simp
next
  case (Suc n)
  then have "fold (\<lambda>i u. u[i := f i]) [0..<Suc n] xs = (map f [0..<n] @ drop n xs)[n := f n]"
    by simp
  also have "\<dots> = map f [0..<n] @ (drop n xs)[0 := f n]"
    by (simp add: list_update_append)
  also have "(drop n xs)[0 := f n] = f n # drop (Suc n) xs"
    using Suc.prems by (cases "drop n xs") (auto simp: drop_Suc tl_drop dest: arg_cong[where f = tl])
  finally show ?case by simp
qed

lemma fold_modify:
  "n \<le> length xs \<Longrightarrow> fold (\<lambda>i u. u[i := g (u ! i)]) [0..<n] xs = map g (take n xs) @ drop n xs"
proof (induction n)
  case 0
  then show ?case by simp
next
  case (Suc n)
  then have n: "n < length xs" by simp
  have "fold (\<lambda>i u. u[i := g (u ! i)]) [0..<Suc n] xs
          = (map g (take n xs) @ drop n xs)[n := g ((map g (take n xs) @ drop n xs) ! n)]"
    using Suc by simp
  also have "(map g (take n xs) @ drop n xs) ! n = xs ! n"
    using n by (simp add: nth_append)
  also have "(map g (take n xs) @ drop n xs)[n := g (xs ! n)] = map g (take n xs) @ (drop n xs)[0 := g (xs ! n)]"
    using n by (simp add: list_update_append)
  also have "(drop n xs)[0 := g (xs ! n)] = g (xs ! n) # drop (Suc n) xs"
    using n by (simp add: Cons_nth_drop_Suc[symmetric])
  finally show ?case using n by (simp add: take_Suc_conv_app_nth)
qed

lemma fold_sum:
  "n \<le> length (u::real list) \<Longrightarrow> fold (\<lambda>i s. s + u ! i) [0..<n] a = a + sum_list (take n u)"
  by (induction n) (simp_all add: take_Suc_conv_app_nth)

lemma utility_raw_eq:
  "utility_raw lam = map (\<lambda>i. max 0 (ln (real lam / 2 + 1) - ln (real (i + 1)))) [0..<lam]"
  by (simp add: utility_raw_def fold_assign)

lemma utility_eq:
  "utility lam = map (\<lambda>w. w / sum_list (utility_raw lam) - 1 / real lam) (utility_raw lam)"
proof -
  let ?u = "utility_raw lam"
  let ?g = "\<lambda>w. w / sum_list ?u - 1 / real lam"
  have "fold (\<lambda>i u. u[i := ?g (u ! i)]) [0..<length ?u] ?u = map ?g ?u"
    using fold_modify[of "length ?u" ?u ?g] by simp
  then show ?thesis by (simp add: utility_def Let_def fold_sum)
qed

lemma utility_raw_nonneg: "w \<in> set (utility_raw lam) \<Longrightarrow> 0 \<le> w"
  by (auto simp: utility_raw_eq)

lemma utility_raw_sum_pos:
  assumes "0 < lam"
  shows "0 < sum_list (utility_raw lam)"
proof -
  obtain w ws where eq: "utility_raw lam = w # ws" and w: "w = max 0 (ln (real lam / 2 + 1) - ln (real (0 + 1)))"
    using assms by (cases lam) (auto simp: utility_raw_eq upt_conv_Cons simp del: upt_Suc)
  have "0 < w" using assms by (simp add: w)
  moreover have "0 \<le> sum_list ws"
    by (rule sum_list_nonneg) (use utility_raw_nonneg[of _ lam] eq in auto)
  ultimately show ?thesis by (simp add: eq)
qed

lemma sum_list_affine:
  "sum_list (map (\<lambda>w. w / s - c) (ws::real list)) = sum_list ws / s - real (length ws) * c"
  by (induction ws) (simp_all add: algebra_simps add_divide_distrib)

lemma utility_weights_cancel:
  assumes "0 < lam"
  shows "sum_list (utility lam) = 0"
proof -
  have "sum_list (utility_raw lam) \<noteq> 0" using utility_raw_sum_pos[OF assms] by simp
  moreover have "length (utility_raw lam) = lam" by (simp add: utility_raw_eq)
  ultimately show ?thesis using assms by (simp add: utility_eq sum_list_affine)
qed

lemma upt5: "[0..<5] = [0, 1, 2, 3, 4]"
  by (simp add: upt_rec)


section \<open>What each step of a generation leaves unchanged\<close>

lemma change_seed_alg:
  "(fst (change_seed s))\<lparr>m_e := e\<rparr> = (fst s)\<lparr>m_e := e\<rparr>"
  by (cases s) (simp add: change_seed_def split: prod.splits)

lemma new_individual_alg:
  "(fst (new_individual D lb ub i s))\<lparr>m_e := e\<rparr> = (fst s)\<lparr>m_e := e\<rparr>"
  by (cases s) (simp add: new_individual_def Let_def split: prod.splits)

lemma fold_new_individual_alg:
  "(fst (fold (new_individual D lb ub) ks s))\<lparr>m_e := e\<rparr> = (fst s)\<lparr>m_e := e\<rparr>"
  by (induction ks arbitrary: s) (simp_all add: new_individual_alg)

lemma sampling_alg:
  "(fst (new_individuals D lb ub lam (change_seed s)))\<lparr>m_e := e\<rparr> = (fst s)\<lparr>m_e := e\<rparr>"
  by (simp add: new_individuals_def fold_new_individual_alg change_seed_alg)

lemma log_generation_alg:
  "(fst (log_generation fevals0 gen s))\<lparr>m_log := l\<rparr> = (fst s)\<lparr>m_log := l\<rparr>"
  by (cases s) (simp add: log_generation_def Let_def)

lemma log_generation_rest: "snd (log_generation fevals0 gen s) = snd s"
  by (cases s) (simp add: log_generation_def Let_def)

lemma update_distribution_alg:
  "(fst (update_distribution mexp D lam u etas s))\<lparr>mean := m, A := M, sigma := r\<rparr> =
     (fst s)\<lparr>mean := m, A := M, sigma := r\<rparr>"
  by (cases s; cases etas) (simp add: update_distribution_def Let_def)

lemma update_distribution_rest: "snd (update_distribution mexp D lam u etas s) = snd s"
  by (cases s; cases etas) (simp add: update_distribution_def Let_def)

lemma configuration_m_e: "configuration (a\<lparr>m_e := e\<rparr>) = configuration a"
  and configuration_m_log: "configuration (a\<lparr>m_log := l\<rparr>) = configuration a"
  and configuration_memory: "configuration (a\<lparr>mean := m, A := M, sigma := r\<rparr>) = configuration a"
  by (simp_all add: configuration_def)

lemma sampling_configuration:
  "configuration (fst (new_individuals D lb ub lam (change_seed s))) = configuration (fst s)"
  using arg_cong[where f = configuration, OF sampling_alg]
  by (simp only: configuration_m_e)

lemma sampling_m_log:
  "m_log (fst (new_individuals D lb ub lam (change_seed s))) = m_log (fst s)"
  using arg_cong[where f = m_log, OF sampling_alg] by simp

lemma sampling_distribution:
  "distribution (fst (new_individuals D lb ub lam (change_seed s))) = distribution (fst s)"
  using arg_cong[where f = distribution, OF sampling_alg]
  by (simp add: distribution_def)

lemma log_generation_configuration:
  "configuration (fst (log_generation fevals0 gen s)) = configuration (fst s)"
  using arg_cong[where f = configuration, OF log_generation_alg]
  by (simp only: configuration_m_log)

lemma update_distribution_configuration:
  "configuration (fst (update_distribution mexp D lam u etas s)) = configuration (fst s)"
  using arg_cong[where f = configuration, OF update_distribution_alg]
  by (simp only: configuration_memory)

lemma update_distribution_m_log:
  "m_log (fst (update_distribution mexp D lam u etas s)) = m_log (fst s)"
  using arg_cong[where f = m_log, OF update_distribution_alg]
  by simp

lemma generation_configuration:
  "configuration (fst (snd (generation mexp D lb ub lam fevals0 u etas gen s))) = configuration (fst s)"
  by (simp add: generation_def Let_def sampling_configuration log_generation_configuration
        update_distribution_configuration)

section \<open>The generation loop\<close>

lemma log_generation_silent:
  "m_verbosity (fst s) = 0 \<Longrightarrow> log_generation fevals0 gen s = s"
  by (cases s) (simp add: log_generation_def)

lemma m_gen_configuration: "configuration a = configuration b \<Longrightarrow> m_gen a = m_gen b"
  and m_verbosity_configuration: "configuration a = configuration b \<Longrightarrow> m_verbosity a = m_verbosity b"
  by (simp_all add: configuration_def)

lemma generation_m_log_silent:
  assumes "m_verbosity (fst s) = 0"
  shows "m_log (fst (snd (generation mexp D lb ub lam fevals0 u etas gen s))) = m_log (fst s)"
proof -
  let ?s2 = "new_individuals D lb ub lam (change_seed s)"
  have "m_verbosity (fst ?s2) = 0"
    using m_verbosity_configuration[OF sampling_configuration[of D lb ub lam s]] assms by simp
  then have "log_generation fevals0 gen ?s2 = ?s2" by (rule log_generation_silent)
  then show ?thesis
    by (simp add: generation_def Let_def sampling_m_log update_distribution_m_log)
qed

text \<open>A property of the state that every generation keeps holds when the loop returns.\<close>

lemma generations_invariant:
  assumes run: "generations mexp D lb ub lam fevals0 u etas gen s = Some s'"
    and step: "\<And>mexp D lb ub lam fevals0 u etas gen s.
                 I s \<Longrightarrow> I (snd (generation mexp D lb ub lam fevals0 u etas gen s))"
  shows "I s \<longrightarrow> I s'"
proof (rule generations.raw_induct
    [where P = "\<lambda>mexp D lb ub lam fevals0 u etas gen s s'. I s \<longrightarrow> I s'", OF _ run])
  fix loop :: "(MatrixXd \<Rightarrow> MatrixXd) \<Rightarrow> nat \<Rightarrow> vector_double \<Rightarrow> vector_double \<Rightarrow> nat \<Rightarrow> 64 word
                 \<Rightarrow> real list \<Rightarrow> real \<times> real \<times> real \<Rightarrow> 32 word \<Rightarrow> evolve_state \<Rightarrow> evolve_state option"
    and mexp D lb ub lam fevals0 u etas gen s s'
  assume IH: "\<And>mexp D lb ub lam fevals0 u etas gen s s'.
      loop mexp D lb ub lam fevals0 u etas gen s = Some s' \<Longrightarrow> I s \<longrightarrow> I s'"
  assume eq: "(if gen \<le> m_gen (fst s)
      then let r = generation mexp D lb ub lam fevals0 u etas gen s
           in if fst r then Some (snd r)
              else loop mexp D lb ub lam fevals0 u etas (gen + 1) (snd r)
      else Some s) = Some s'"
  let ?r = "generation mexp D lb ub lam fevals0 u etas gen s"
  show "I s \<longrightarrow> I s'"
  proof
    assume "I s"
    then have r: "I (snd ?r)" by (rule step)
    show "I s'"
    proof (cases "gen \<le> m_gen (fst s)")
      case False
      with eq \<open>I s\<close> show ?thesis by simp
    next
      case True
      show ?thesis
      proof (cases "fst ?r")
        case True
        with eq \<open>gen \<le> m_gen (fst s)\<close> have "s' = snd ?r" by (simp add: Let_def)
        with r show ?thesis by simp
      next
        case False
        with eq \<open>gen \<le> m_gen (fst s)\<close>
        have "loop mexp D lb ub lam fevals0 u etas (gen + 1) (snd ?r) = Some s'"
          by (simp add: Let_def)
        with IH r show ?thesis by blast
      qed
    qed
  qed
qed

lemma generations_configuration:
  assumes "generations mexp D lb ub lam fevals0 u etas gen s = Some s'"
  shows "configuration (fst s') = configuration (fst s)"
  using generations_invariant[OF assms, of "\<lambda>t. configuration (fst t) = configuration (fst s)"]
  by (simp add: generation_configuration)

lemma generations_m_log_silent:
  assumes "generations mexp D lb ub lam fevals0 u etas gen s = Some s'"
    and "m_verbosity (fst s) = 0"
  shows "m_log (fst s') = m_log (fst s)"
proof -
  let ?I = "\<lambda>t. configuration (fst t) = configuration (fst s) \<and> m_log (fst t) = m_log (fst s)"
  have "?I (snd (generation mexp D lb ub lam fevals0 u etas gen t))" if "?I t"
    for mexp D lb ub lam fevals0 u etas gen t
  proof -
    have "m_verbosity (fst t) = 0"
      using that assms(2) m_verbosity_configuration[of "fst t" "fst s"] by simp
    then show ?thesis
      using that by (simp add: generation_configuration generation_m_log_silent)
  qed
  then show ?thesis
    using generations_invariant[OF assms(1), of ?I] by blast
qed

text \<open>The loop with a budget of one generation runs its body once.\<close>

lemma generations_once:
  assumes "m_gen (fst s) = 1"
  shows "generations mexp D lb ub lam fevals0 u etas 1 s =
           Some (snd (generation mexp D lb ub lam fevals0 u etas 1 s))"
proof -
  let ?r = "generation mexp D lb ub lam fevals0 u etas 1 s"
  have g: "m_gen (fst (snd ?r)) = 1"
    using m_gen_configuration[OF generation_configuration[of mexp D lb ub lam fevals0 u etas 1 s]] assms
    by simp
  have "\<not> ((1::32 word) + 1 \<le> 1)" by (simp add: word_le_nat_alt)
  then have "generations mexp D lb ub lam fevals0 u etas (1 + 1) (snd ?r) = Some (snd ?r)"
    by (subst generations.simps) (simp only: g if_False)
  then show ?thesis
    by (subst generations.simps) (simp add: assms Let_def)
qed

section \<open>Unfolding evolve\<close>

lemma reset_or_retain_alg:
  "(reset_or_retain alg pop)\<lparr>mean := m, A := M, sigma := r\<rparr> = alg\<lparr>mean := m, A := M, sigma := r\<rparr>"
  by (simp add: reset_or_retain_def Let_def)

lemma reset_or_retain_configuration:
  "configuration (reset_or_retain alg pop) = configuration alg"
  using arg_cong[where f = configuration, OF reset_or_retain_alg]
  by (simp only: configuration_memory)

lemma reset_or_retain_m_log: "m_log (reset_or_retain alg pop) = m_log alg"
  using arg_cong[where f = m_log, OF reset_or_retain_alg] by simp

lemma reset_or_retain_m_e: "m_e (reset_or_retain alg pop) = m_e alg"
  using arg_cong[where f = m_e, OF reset_or_retain_alg] by simp

text \<open>A call that passes the checks, with a budget that is not zero, is the loop run
  from the state that \<open>reset_or_retain\<close> leaves.\<close>

lemma evolve_valid:
  assumes "nc (get_problem pop) = 0" "nf (get_problem pop) = 1" "4 \<le> pop_size pop" "m_gen alg \<noteq> 0"
  shows "evolve mexp alg pop =
           map_option (\<lambda>(alg, pop, z, x). (alg, Inr pop))
             (generations mexp (nx (get_problem pop)) (lower_bounds (get_problem pop))
                (upper_bounds (get_problem pop)) (pop_size pop) (fevals (get_problem pop))
                (utility (pop_size pop)) (learning_rates (alg\<lparr>m_log := []\<rparr>) (nx (get_problem pop))) 1
                (reset_or_retain (alg\<lparr>m_log := []\<rparr>) pop, pop,
                 replicate (pop_size pop) (VectorXd_Zero (nx (get_problem pop))),
                 replicate (pop_size pop) (VectorXd_Zero (nx (get_problem pop)))))"
  using assms by (simp add: evolve_def Let_def)

lemma evolve_once:
  assumes "nc (get_problem pop) = 0" "nf (get_problem pop) = 1" "4 \<le> pop_size pop" "m_gen alg = 1"
  shows "evolve mexp alg pop =
           Some (let s = snd (generation mexp (nx (get_problem pop)) (lower_bounds (get_problem pop))
                (upper_bounds (get_problem pop)) (pop_size pop) (fevals (get_problem pop))
                (utility (pop_size pop)) (learning_rates (alg\<lparr>m_log := []\<rparr>) (nx (get_problem pop))) 1
                (reset_or_retain (alg\<lparr>m_log := []\<rparr>) pop, pop,
                 replicate (pop_size pop) (VectorXd_Zero (nx (get_problem pop))),
                 replicate (pop_size pop) (VectorXd_Zero (nx (get_problem pop)))))
                 in (fst s, Inr (fst (snd s))))"
proof -
  have "m_gen (reset_or_retain (alg\<lparr>m_log := []\<rparr>) pop) = 1"
    using m_gen_configuration[OF reset_or_retain_configuration[of "alg\<lparr>m_log := []\<rparr>" pop]] assms(4)
    by simp
  then show ?thesis
    using assms by (simp add: evolve_valid generations_once Let_def split: prod.splits)
qed

lemma make_xnes_eq:
  "eta = -1 \<or> 0 < eta \<and> eta \<le> 1 \<Longrightarrow>
   make_xnes gen eta memory =
     \<lparr>m_gen = gen, m_eta_mu = eta, m_eta_sigma = eta, m_eta_b = eta,
      m_sigma0 = -1, m_ftol = 1 / 10 ^ 6, m_xtol = 1 / 10 ^ 6, m_memory = memory,
      sigma = -1, mean = [0], A = [[1]],
      m_e = zero_engine 0, m_seed = 0, m_verbosity = 0, m_log = []\<rparr>"
  by (auto simp: make_xnes_def xnes_ctor_def VectorXd_Zero_def MatrixXd_Identity_def)

lemma population_facts:
  "nc (get_problem population4) = 0" "nf (get_problem population4) = 1" "pop_size population4 = 4"
  "nc (get_problem population5) = 0" "nf (get_problem population5) = 1" "pop_size population5 = 5"
  "nx (get_problem population5) = 1"
  "nc (get_problem constrained_population5) = 1"
  by (simp_all add: population4_def population5_def constrained_population5_def sphere_def pop_size_def)

section \<open>Termination of the generation loop\<close>

text \<open>Unless the budget is the largest \<^verbatim>\<open>unsigned int\<close>, the loop returns.\<close>

lemma evolve_state_cases: "\<exists>alg pop z x. (s::evolve_state) = (alg, pop, z, x)"
  by (cases s) blast

lemma generations_returns:
  assumes "m_gen (fst s) \<noteq> - 1"
  shows "generations mexp D lb ub lam fevals0 u etas gen s \<noteq> None"
  using assms
proof (induction "Suc (unat (m_gen (fst s))) - unat gen" arbitrary: gen s)
  case 0
  then have "\<not> gen \<le> m_gen (fst s)" by (simp add: word_le_nat_alt)
  then show ?case by (subst generations.simps) (simp add: evolve_state_cases)
next
  case (Suc n)
  let ?r = "generation mexp D lb ub lam fevals0 u etas gen s"
  show ?case
  proof (cases "gen \<le> m_gen (fst s) \<and> \<not> fst ?r")
    case False
    then show ?thesis by (subst generations.simps) (auto simp: Let_def evolve_state_cases)
  next
    case True
    have g: "m_gen (fst (snd ?r)) = m_gen (fst s)"
      by (rule m_gen_configuration[OF generation_configuration])
    have "m_gen (fst s) < - 1" using Suc.prems by (simp add: word_order.not_eq_extremum)
    then have "gen < - 1" using True by (simp add: word_le_nat_alt word_less_nat_alt)
    then have "gen \<noteq> - 1" by auto
    then have "1 + gen \<noteq> 0" by (simp add: add_eq_0_iff)
    then have "unat (1 + gen) = Suc (unat gen)" by (rule unatSuc)
    then have "unat (gen + 1) = Suc (unat gen)" by (simp add: add.commute)
    then have "n = Suc (unat (m_gen (fst (snd ?r)))) - unat (gen + 1)"
      using Suc.hyps(2) g by simp
    moreover have "m_gen (fst (snd ?r)) \<noteq> - 1" using Suc.prems g by simp
    ultimately have
      "generations mexp D lb ub lam fevals0 u etas (gen + 1) (snd ?r) \<noteq> None"
      using Suc.hyps(1) by blast
    then show ?thesis
      using True by (subst generations.simps) (simp add: Let_def)
  qed
qed

lemma evolve_returns:
  assumes "nc (get_problem pop) = 0" "nf (get_problem pop) = 1" "4 \<le> pop_size pop"
    and "m_gen alg \<noteq> - 1"
  shows "\<exists>alg' pop'. evolve mexp alg pop = Some (alg', Inr pop')"
proof (cases "m_gen alg = 0")
  case True
  then show ?thesis using assms by (simp add: evolve_def Let_def)
next
  case False
  let ?s0 = "(reset_or_retain (alg\<lparr>m_log := []\<rparr>) pop, pop,
                 replicate (pop_size pop) (VectorXd_Zero (nx (get_problem pop))),
                 replicate (pop_size pop) (VectorXd_Zero (nx (get_problem pop))))"
  have "m_gen (fst ?s0) \<noteq> - 1"
    using m_gen_configuration[OF reset_or_retain_configuration[of "alg\<lparr>m_log := []\<rparr>" pop]] assms(4)
    by simp
  from generations_returns[OF this]
  show ?thesis
    unfolding evolve_valid[OF assms(1,2,3) False] by (fastforce split: prod.splits)
qed

section \<open>The learning rates\<close>

text \<open>Whatever rates the instance was constructed with, the rates of the update are the
  automatic ones.\<close>

lemma learning_rates_automatic:
  "learning_rates alg D =
     (1, 0.6 * (3 + ln (real D)) / (real D * sqrt (real D)),
      0.6 * (3 + ln (real D)) / (real D * sqrt (real D)))"
  by (simp add: learning_rates_def Let_def)

text \<open>
  Claim C1 says that a learning rate constructed with a fixed value in \<open>(0, 1]\<close> is the
  rate that every \<^verbatim>\<open>evolve\<close> call uses, and that only the sentinel \<open>-1\<close> is replaced
  by the automatic value. The code does not do that: the three conditions of lines 226
  to 235 are assignments, so the rates of the update are always the automatic ones. For
  an instance constructed with the three rates equal to \<open>1 / 2\<close> and a problem of
  dimension 1, the rates that \<^verbatim>\<open>evolve\<close> uses are \<open>1\<close>, \<open>9 / 5\<close> and \<open>9 / 5\<close>.
\<close>

theorem fixed_learning_rates_ignored:
  "m_eta_mu (make_xnes 1 (1 / 2) False) = 1 / 2 \<and>
   m_eta_sigma (make_xnes 1 (1 / 2) False) = 1 / 2 \<and>
   m_eta_b (make_xnes 1 (1 / 2) False) = 1 / 2 \<and>
   learning_rates (make_xnes 1 (1 / 2) False) 1 = (1, 9 / 5, 9 / 5)"
  by (simp add: make_xnes_eq learning_rates_def Let_def)

section \<open>The checks on the problem and the population\<close>

text \<open>A problem with nonlinear constraints, or with a number of objectives other than
  one, or a population of fewer than 4 individuals, is rejected, and the instance is left
  as it was.\<close>

lemma invalid_population_rejected:
  assumes "nc (get_problem pop) \<noteq> 0 \<or> nf (get_problem pop) \<noteq> 1 \<or> pop_size pop < 4"
  shows "\<exists>e. evolve mexp alg pop = Some (alg, Inl e)"
  using assms by (auto simp: evolve_def Let_def)

text \<open>
  Claim C2 says that a population of at most 4 individuals is rejected with an
  invalid-argument error. The code rejects a population of fewer than 4 individuals
  (line 204), while its message and documentation ask for at least 5: a population of
  exactly 4 individuals on an unconstrained single-objective problem is accepted. With
  a budget of zero it is returned as it is, and with a budget of one generation the call
  returns a population, not an exception.
\<close>

theorem four_individuals_accepted:
  "evolve mexp_id (make_xnes 0 (-1) False) population4 = Some (make_xnes 0 (-1) False, Inr population4) \<and>
   map_option (isl \<circ> snd) (evolve mexp_id (make_xnes 1 (-1) False) population4) = Some False"
proof
  have "m_gen (make_xnes 0 (-1) False) = 0" by (simp add: make_xnes_eq)
  then show "evolve mexp_id (make_xnes 0 (-1) False) population4 =
               Some (make_xnes 0 (-1) False, Inr population4)"
    by (simp add: evolve_def population_facts Let_def)
next
  have "m_gen (make_xnes 1 (-1) False) = 1" by (simp add: make_xnes_eq)
  then have "\<exists>a p. evolve mexp_id (make_xnes 1 (-1) False) population4 = Some (a, Inr p)"
    using evolve_once[of population4 "make_xnes 1 (-1) False" mexp_id]
    by (simp add: population_facts Let_def)
  then show "map_option (isl \<circ> snd) (evolve mexp_id (make_xnes 1 (-1) False) population4) = Some False"
    by auto
qed

section \<open>The log\<close>

lemma exit_condition_first: "exit_condition 1 s = False"
  by (cases s) (simp add: exit_condition_def)

lemma log_generation_verbose:
  "m_verbosity (fst s) = 1 \<Longrightarrow>
     length (m_log (fst (log_generation fevals0 gen s))) = Suc (length (m_log (fst s)))"
  by (cases s) (simp add: log_generation_def Let_def)

lemma generation_first_log:
  assumes "m_verbosity (fst s) = 1"
  shows "length (m_log (fst (snd (generation mexp D lb ub lam fevals0 u etas 1 s)))) =
           Suc (length (m_log (fst s)))"
proof -
  let ?s2 = "new_individuals D lb ub lam (change_seed s)"
  have "m_verbosity (fst ?s2) = 1"
    using m_verbosity_configuration[OF sampling_configuration[of D lb ub lam s]] assms by simp
  then have "length (m_log (fst (log_generation fevals0 1 ?s2))) = Suc (length (m_log (fst ?s2)))"
    by (rule log_generation_verbose)
  then show ?thesis
    by (simp add: generation_def Let_def exit_condition_first update_distribution_m_log sampling_m_log)
qed

lemma evolve_once_verbose:
  assumes "nc (get_problem pop) = 0" "nf (get_problem pop) = 1" "4 \<le> pop_size pop"
    "m_gen alg = 1" "m_verbosity alg = 1"
  shows "\<exists>alg' pop'. evolve mexp alg pop = Some (alg', Inr pop') \<and> length (m_log alg') = 1"
proof -
  let ?s0 = "(reset_or_retain (alg\<lparr>m_log := []\<rparr>) pop, pop,
                 replicate (pop_size pop) (VectorXd_Zero (nx (get_problem pop))),
                 replicate (pop_size pop) (VectorXd_Zero (nx (get_problem pop))))"
  have "m_verbosity (fst ?s0) = 1"
    using m_verbosity_configuration[OF reset_or_retain_configuration[of "alg\<lparr>m_log := []\<rparr>" pop]] assms(5)
    by simp
  moreover have "m_log (fst ?s0) = []" by (simp add: reset_or_retain_m_log)
  ultimately show ?thesis
    using generation_first_log[of ?s0] evolve_once[OF assms(1-4), of mexp]
    by (simp add: Let_def)
qed

text \<open>
  Claim C3 says that every call clears the log at its start, and that the log is empty
  after any call made with verbosity 0. The log is cleared only after the checks have
  passed (line 215, under the comment "No throws, all valid: we clear the logs"). An
  instance with a budget of one generation and verbosity 1 evolves five individuals and
  logs one line; its verbosity is then set to 0 and it is called on a constrained
  problem: the call throws, and the log still holds the line of the earlier call.
\<close>

theorem log_kept_by_failing_call_counterexample:
  "(case evolve mexp_id (set_verbosity (make_xnes 1 (-1) False) 1) population5 of
      None \<Rightarrow> False
    | Some (alg, r) \<Rightarrow>
        m_verbosity (set_verbosity alg 0) = 0 \<and>
        (case evolve mexp_id (set_verbosity alg 0) constrained_population5 of
           None \<Rightarrow> False
         | Some (alg', r') \<Rightarrow> r' = Inl Nonlinear_constraints \<and> length (get_log alg') = 1))"
proof -
  have "m_gen (set_verbosity (make_xnes 1 (-1) False) 1) = 1"
    "m_verbosity (set_verbosity (make_xnes 1 (-1) False) 1) = 1"
    by (simp_all add: make_xnes_eq set_verbosity_def)
  then obtain alg pop' where
    e: "evolve mexp_id (set_verbosity (make_xnes 1 (-1) False) 1) population5 = Some (alg, Inr pop')"
    and l: "length (m_log alg) = 1"
    using evolve_once_verbose[of population5 "set_verbosity (make_xnes 1 (-1) False) 1" mexp_id]
    by (auto simp: population_facts)
  have "evolve mexp_id (set_verbosity alg 0) constrained_population5 =
          Some (set_verbosity alg 0, Inl Nonlinear_constraints)"
    by (simp add: evolve_def population_facts)
  then show ?thesis
    using e l by (simp add: set_verbosity_def get_log_def)
qed

text \<open>
  Claim C3, amended. For every call that passes the checks of \<^verbatim>\<open>evolve\<close> (no
  nonlinear constraint, one objective, at least 5 individuals) on an instance whose
  generation budget is not 0, the log is cleared before the first generation: the call
  does what it does from an empty log, so entries never accumulate across such calls,
  and when it returns with verbosity 0 the log is empty. A call on an instance with
  budget 0, and a call that throws, leave the instance, and with it the log, as it was.
\<close>

theorem log_cleared_after_checks:
  "(if nc (get_problem pop) = 0 \<and> nf (get_problem pop) = 1 \<and> 5 \<le> pop_size pop \<and> m_gen alg \<noteq> 0
    then evolve mexp alg pop = evolve mexp (alg\<lparr>m_log := []\<rparr>) pop \<and>
         (case evolve mexp alg pop of
            None \<Rightarrow> True
          | Some (alg', r) \<Rightarrow> if m_verbosity alg = 0 then get_log alg' = [] else True)
    else True) \<and>
   (if m_gen alg = 0 then \<exists>r. evolve mexp alg pop = Some (alg, r) else True) \<and>
   (case evolve mexp alg pop of
      None \<Rightarrow> True
    | Some (alg', r) \<Rightarrow> if isl r then alg' = alg else True)"
proof (intro conjI)
  show "if nc (get_problem pop) = 0 \<and> nf (get_problem pop) = 1 \<and> 5 \<le> pop_size pop \<and> m_gen alg \<noteq> 0
    then evolve mexp alg pop = evolve mexp (alg\<lparr>m_log := []\<rparr>) pop \<and>
         (case evolve mexp alg pop of
            None \<Rightarrow> True
          | Some (alg', r) \<Rightarrow> if m_verbosity alg = 0 then get_log alg' = [] else True)
    else True"
  proof (cases "nc (get_problem pop) = 0 \<and> nf (get_problem pop) = 1 \<and> 5 \<le> pop_size pop \<and> m_gen alg \<noteq> 0")
    case False
    then show ?thesis by (simp only: if_False)
  next
    case True
    then have valid: "nc (get_problem pop) = 0" "nf (get_problem pop) = 1" "4 \<le> pop_size pop"
      "m_gen alg \<noteq> 0" by simp_all
    let ?s0 = "(reset_or_retain (alg\<lparr>m_log := []\<rparr>) pop, pop,
                   replicate (pop_size pop) (VectorXd_Zero (nx (get_problem pop))),
                   replicate (pop_size pop) (VectorXd_Zero (nx (get_problem pop))))"
    let ?run = "generations mexp (nx (get_problem pop)) (lower_bounds (get_problem pop))
                  (upper_bounds (get_problem pop)) (pop_size pop) (fevals (get_problem pop))
                  (utility (pop_size pop)) (learning_rates (alg\<lparr>m_log := []\<rparr>) (nx (get_problem pop))) 1 ?s0"
    have ev: "evolve mexp alg pop = map_option (\<lambda>(alg, pop, z, x). (alg, Inr pop)) ?run"
      by (rule evolve_valid[OF valid])
    have same: "evolve mexp alg pop = evolve mexp (alg\<lparr>m_log := []\<rparr>) pop"
      using valid by (simp add: evolve_def Let_def)
    have "get_log alg' = []" if "evolve mexp alg pop = Some (alg', r)" "m_verbosity alg = 0" for alg' r
    proof -
      have "map_option (\<lambda>(alg, pop, z, x). (alg, Inr pop)) ?run = Some (alg', r)"
        using that(1) ev by simp
      then obtain p z x where s': "?run = Some (alg', p, z, x)" by auto
      have "m_verbosity (fst ?s0) = 0"
        using m_verbosity_configuration[OF reset_or_retain_configuration[of "alg\<lparr>m_log := []\<rparr>" pop]] that(2)
        by simp
      then have "m_log (fst (alg', p, z, x)) = m_log (fst ?s0)"
        using s' by (rule generations_m_log_silent[rotated])
      then show ?thesis by (simp add: reset_or_retain_m_log get_log_def)
    qed
    then show ?thesis using True same by (auto split: option.splits)
  qed
next
  show "if m_gen alg = 0 then \<exists>r. evolve mexp alg pop = Some (alg, r) else True"
    by (simp add: evolve_def Let_def)
next
  show "case evolve mexp alg pop of
      None \<Rightarrow> True
    | Some (alg', r) \<Rightarrow> if isl r then alg' = alg else True"
    by (auto simp: evolve_def Let_def split: option.splits)
qed

theorem log_cleared_after_checks_witness:
  "nc (get_problem population5) = 0 \<and> nf (get_problem population5) = 1 \<and> 5 \<le> pop_size population5 \<and>
   m_gen (make_xnes 1 (-1) False) \<noteq> 0 \<and> m_verbosity (make_xnes 1 (-1) False) = 0 \<and>
   evolve mexp_id (make_xnes 1 (-1) False) population5 \<noteq> None \<and>
   get_log (fst (the (evolve mexp_id (make_xnes 1 (-1) False) population5))) = []"
proof -
  have g: "m_gen (make_xnes 1 (-1) False) = 1" "m_verbosity (make_xnes 1 (-1) False) = 0"
    by (simp_all add: make_xnes_eq)
  then obtain alg' r where e: "evolve mexp_id (make_xnes 1 (-1) False) population5 = Some (alg', r)"
    using evolve_once[of population5 "make_xnes 1 (-1) False" mexp_id]
    by (simp add: population_facts Let_def)
  have c: "nc (get_problem population5) = 0 \<and> nf (get_problem population5) = 1 \<and>
      5 \<le> pop_size population5 \<and> m_gen (make_xnes 1 (-1) False) \<noteq> 0"
    by (simp add: population_facts g)
  note log_cleared_after_checks[of population5 "make_xnes 1 (-1) False" mexp_id, THEN conjunct1,
      unfolded if_P[OF c], THEN conjunct2]
  then have "get_log alg' = []" by (simp add: e g(2))
  then show ?thesis
    using g by (simp add: population_facts e)
qed

section \<open>The update of the distribution\<close>

lemma sum_list_upt: "sum_list (map f [0..<n]) = (\<Sum>i<n. (f i :: real))"
  by (induction n) simp_all

lemma tabulate_vector_nth [simp]: "j < D \<Longrightarrow> tabulate_vector D f ! j = f j"
  and tabulate_vector_length [simp]: "length (tabulate_vector D f) = D"
  by (simp_all add: tabulate_vector_def)

lemma tabulate_vector_of: "length v = D \<Longrightarrow> v = tabulate_vector D (\<lambda>j. v ! j)"
  unfolding tabulate_vector_def using map_nth[of v] by simp

lemma vec_add_tabulate:
  "vec_add (tabulate_vector D f) (tabulate_vector D g) = tabulate_vector D (\<lambda>j. f j + g j)"
  by (simp add: vec_add_def tabulate_vector_def zip_map_map zip_same_conv_map)

lemma vec_scale_tabulate:
  "vec_scale c (tabulate_vector D f) = tabulate_vector D (\<lambda>j. c * f j)"
  by (simp add: vec_scale_def tabulate_vector_def)

lemma dot_tabulate:
  "dot (tabulate_vector D f) (tabulate_vector D g) = (\<Sum>k<D. f k * g k)"
  by (simp add: dot_def tabulate_vector_def zip_map_map zip_same_conv_map sum_list_upt)

lemma tabulate_matrix_rows:
  "tabulate_matrix D f = map (\<lambda>j. tabulate_vector D (f j)) [0..<D]"
  by (simp add: tabulate_matrix_def tabulate_vector_def)

lemma tabulate_matrix_of:
  assumes "length M = D" "\<forall>j<D. length (M ! j) = D"
  shows "M = tabulate_matrix D (\<lambda>j k. M ! j ! k)"
proof (rule nth_equalityI)
  show "length M = length (tabulate_matrix D (\<lambda>j k. M ! j ! k))"
    using assms by (simp add: tabulate_matrix_def)
next
  fix j assume "j < length M"
  then have j: "j < D" using assms by simp
  then have "M ! j = tabulate_vector D (\<lambda>k. M ! j ! k)"
    using assms(2) tabulate_vector_of by blast
  then show "M ! j = tabulate_matrix D (\<lambda>j k. M ! j ! k) ! j"
    using j by (simp add: tabulate_matrix_rows)
qed

lemma mat_add_tabulate:
  "mat_add (tabulate_matrix D f) (tabulate_matrix D g) = tabulate_matrix D (\<lambda>j k. f j k + g j k)"
  by (simp add: mat_add_def tabulate_matrix_rows zip_map_map zip_same_conv_map vec_add_tabulate)

lemma mat_sub_tabulate:
  "mat_sub (tabulate_matrix D f) (tabulate_matrix D g) = tabulate_matrix D (\<lambda>j k. f j k - g j k)"
  by (simp add: mat_sub_def tabulate_matrix_def zip_map_map zip_same_conv_map)

lemma mat_scale_tabulate:
  "mat_scale c (tabulate_matrix D f) = tabulate_matrix D (\<lambda>j k. c * f j k)"
  by (simp add: mat_scale_def tabulate_matrix_rows vec_scale_tabulate)

lemma identity_tabulate:
  "MatrixXd_Identity D D = tabulate_matrix D (\<lambda>j k. if j = k then 1 else 0)"
  by (simp add: MatrixXd_Identity_def tabulate_matrix_def)

lemma outer_tabulate:
  "outer (tabulate_vector D f) = tabulate_matrix D (\<lambda>j k. f j * f k)"
  by (simp add: outer_def tabulate_matrix_def tabulate_vector_def)

lemma trace_tabulate: "trace (tabulate_matrix D f) = (\<Sum>j<D. f j j)"
proof -
  have "map (\<lambda>j. tabulate_matrix D f ! j ! j) [0..<D] = map (\<lambda>j. f j j) [0..<D]"
    by (simp add: tabulate_matrix_def)
  then show ?thesis
    by (simp add: trace_def sum_list_upt[symmetric] tabulate_matrix_def del: map_eq_conv)
qed

lemma mat_vec_tabulate:
  "mat_vec (tabulate_matrix D f) (tabulate_vector D g) = tabulate_vector D (\<lambda>j. \<Sum>k<D. f j k * g k)"
proof -
  have "dot (tabulate_vector D (f j)) (tabulate_vector D g) = (\<Sum>k<D. f j k * g k)" for j
    by (rule dot_tabulate)
  then show ?thesis
    by (simp add: mat_vec_def tabulate_matrix_rows) (simp add: tabulate_vector_def)
qed

text \<open>The two accumulation loops of the update.\<close>

lemma d_center_loop:
  assumes "\<forall>i<lam. length (zs ! i) = D" "n < lam"
  shows "fold (\<lambda>i d. vec_add d (vec_scale (u ! i) (zs ! i))) [1..<Suc n]
           (vec_scale (u ! 0) (zs ! 0)) =
         tabulate_vector D (\<lambda>j. \<Sum>i<Suc n. u ! i * zs ! i ! j)"
  using assms(2)
proof (induction n)
  case 0
  then have "zs ! 0 = tabulate_vector D (\<lambda>j. zs ! 0 ! j)"
    using assms(1) tabulate_vector_of by blast
  then have "vec_scale (u ! 0) (zs ! 0) = tabulate_vector D (\<lambda>j. u ! 0 * zs ! 0 ! j)"
    using vec_scale_tabulate[of "u ! 0" D "\<lambda>j. zs ! 0 ! j"] by simp
  then show ?case by simp
next
  case (Suc n)
  have z: "zs ! Suc n = tabulate_vector D (\<lambda>j. zs ! Suc n ! j)"
    using assms(1) Suc.prems tabulate_vector_of by blast
  have "fold (\<lambda>i d. vec_add d (vec_scale (u ! i) (zs ! i))) [1..<Suc (Suc n)]
           (vec_scale (u ! 0) (zs ! 0)) =
        vec_add (tabulate_vector D (\<lambda>j. \<Sum>i<Suc n. u ! i * zs ! i ! j))
          (vec_scale (u ! Suc n) (zs ! Suc n))"
    using Suc by simp
  also have "vec_scale (u ! Suc n) (zs ! Suc n) = tabulate_vector D (\<lambda>j. u ! Suc n * zs ! Suc n ! j)"
    using vec_scale_tabulate[of "u ! Suc n" D "\<lambda>j. zs ! Suc n ! j"] z by simp
  finally show ?case by (simp add: vec_add_tabulate)
qed

lemma cov_grad_term:
  assumes "length v = D"
  shows "mat_scale c (mat_sub (outer v) (MatrixXd_Identity D D)) =
           tabulate_matrix D (\<lambda>j k. c * (v ! j * v ! k - (if j = k then 1 else 0)))"
proof -
  have "outer v = tabulate_matrix D (\<lambda>j k. v ! j * v ! k)"
    using outer_tabulate[of D "\<lambda>j. v ! j"] tabulate_vector_of[OF assms] by simp
  then show ?thesis
    by (simp add: identity_tabulate mat_sub_tabulate mat_scale_tabulate)
qed

lemma cov_grad_loop:
  assumes "\<forall>i<lam. length (zs ! i) = D" "n < lam"
  shows "fold (\<lambda>i c. mat_add c (mat_scale (u ! i) (mat_sub (outer (zs ! i)) (MatrixXd_Identity D D))))
           [1..<Suc n]
           (mat_scale (u ! 0) (mat_sub (outer (zs ! 0)) (MatrixXd_Identity D D))) =
         tabulate_matrix D
           (\<lambda>j k. \<Sum>i<Suc n. u ! i * (zs ! i ! j * zs ! i ! k - (if j = k then 1 else 0)))"
  using assms(2)
proof (induction n)
  case 0
  then have "length (zs ! 0) = D" using assms(1) by simp
  then show ?case by (simp add: cov_grad_term)
next
  case (Suc n)
  have "length (zs ! Suc n) = D" using assms(1) Suc.prems by simp
  then show ?case
    using Suc by (simp add: cov_grad_term mat_add_tabulate)
qed

lemma sorted_indices_facts:
  "length (sorted_indices pop lam) = lam"
  "set (sorted_indices pop lam) = {0..<lam}"
  "sorted (map (\<lambda>a. get_f pop ! a ! 0) (sorted_indices pop lam))"
  by (simp_all add: sorted_indices_def)

lemma ranked_nth: "i < lam \<Longrightarrow> ranked pop lam z ! i = z ! (sorted_indices pop lam ! i)"
  by (simp add: ranked_def sorted_indices_facts)

lemma ranked_lengths:
  assumes "\<forall>i<lam. length (z ! i) = D"
  shows "\<forall>i<lam. length (ranked pop lam z ! i) = D"
proof (intro allI impI)
  fix i assume i: "i < lam"
  then have "sorted_indices pop lam ! i < lam"
    using nth_mem[of i "sorted_indices pop lam"] sorted_indices_facts(1,2)[of pop lam] by auto
  then show "length (ranked pop lam z ! i) = D" using assms i by (simp add: ranked_nth)
qed

lemma d_center_of_ranked:
  assumes "length u = lam" "0 < lam" "\<forall>i<lam. length (z ! i) = D"
  shows "d_center_of u z (sorted_indices pop lam) =
           tabulate_vector D (spec_d_center lam u (ranked pop lam z))"
proof -
  let ?zs = "ranked pop lam z"
  obtain n where n: "lam = Suc n" using assms(2) by (cases lam) simp_all
  have f: "fold (\<lambda>i d. vec_add d (vec_scale (u ! i) (z ! (sorted_indices pop lam ! i)))) ks d0 =
           fold (\<lambda>i d. vec_add d (vec_scale (u ! i) (?zs ! i))) ks d0"
    if "set ks \<subseteq> {0..<lam}" for ks d0
    using that by (induction ks arbitrary: d0) (simp_all add: ranked_nth)
  have s: "set [1..<lam] \<subseteq> {0..<lam}" by auto
  have z0: "z ! (sorted_indices pop lam ! 0) = ?zs ! 0" using assms(2) by (simp add: ranked_nth)
  have "d_center_of u z (sorted_indices pop lam) =
          fold (\<lambda>i d. vec_add d (vec_scale (u ! i) (z ! (sorted_indices pop lam ! i)))) [1..<lam]
            (vec_scale (u ! 0) (?zs ! 0))"
    by (simp only: d_center_of_def assms(1) z0)
  also have "\<dots> = fold (\<lambda>i d. vec_add d (vec_scale (u ! i) (?zs ! i))) [1..<lam]
            (vec_scale (u ! 0) (?zs ! 0))"
    by (rule f[OF s])
  also have "\<dots> = fold (\<lambda>i d. vec_add d (vec_scale (u ! i) (?zs ! i))) [1..<Suc n]
            (vec_scale (u ! 0) (?zs ! 0))"
    by (simp only: n)
  also have "\<dots> = tabulate_vector D (\<lambda>j. \<Sum>i<Suc n. u ! i * ?zs ! i ! j)"
    using d_center_loop[OF ranked_lengths[OF assms(3), of pop], where n = n and u = u] n by simp
  finally show ?thesis by (simp add: n spec_d_center_def[abs_def])
qed

lemma cov_grad_of_ranked:
  assumes "length u = lam" "0 < lam" "\<forall>i<lam. length (z ! i) = D"
  shows "cov_grad_of D u z (sorted_indices pop lam) =
           tabulate_matrix D (spec_cov_grad lam u (ranked pop lam z))"
proof -
  let ?zs = "ranked pop lam z"
  let ?I = "MatrixXd_Identity D D"
  obtain n where n: "lam = Suc n" using assms(2) by (cases lam) simp_all
  have f: "fold (\<lambda>i c. mat_add c (mat_scale (u ! i) (mat_sub (outer (z ! (sorted_indices pop lam ! i))) ?I))) ks c0 =
           fold (\<lambda>i c. mat_add c (mat_scale (u ! i) (mat_sub (outer (?zs ! i)) ?I))) ks c0"
    if "set ks \<subseteq> {0..<lam}" for ks c0
    using that by (induction ks arbitrary: c0) (simp_all add: ranked_nth)
  have s: "set [1..<lam] \<subseteq> {0..<lam}" by auto
  have z0: "z ! (sorted_indices pop lam ! 0) = ?zs ! 0" using assms(2) by (simp add: ranked_nth)
  have "cov_grad_of D u z (sorted_indices pop lam) =
          fold (\<lambda>i c. mat_add c (mat_scale (u ! i) (mat_sub (outer (z ! (sorted_indices pop lam ! i))) ?I)))
            [1..<lam] (mat_scale (u ! 0) (mat_sub (outer (?zs ! 0)) ?I))"
    by (simp only: cov_grad_of_def Let_def assms(1) z0)
  also have "\<dots> = fold (\<lambda>i c. mat_add c (mat_scale (u ! i) (mat_sub (outer (?zs ! i)) ?I)))
            [1..<lam] (mat_scale (u ! 0) (mat_sub (outer (?zs ! 0)) ?I))"
    by (rule f[OF s])
  also have "\<dots> = fold (\<lambda>i c. mat_add c (mat_scale (u ! i) (mat_sub (outer (?zs ! i)) ?I)))
            [1..<Suc n] (mat_scale (u ! 0) (mat_sub (outer (?zs ! 0)) ?I))"
    by (simp only: n)
  also have "\<dots> = tabulate_matrix D
           (\<lambda>j k. \<Sum>i<Suc n. u ! i * (?zs ! i ! j * ?zs ! i ! k - (if j = k then 1 else 0)))"
    using cov_grad_loop[OF ranked_lengths[OF assms(3), of pop], where n = n and u = u] n by simp
  finally show ?thesis by (simp add: n spec_cov_grad_def[abs_def])
qed

text \<open>
  Claim C4. In each generation the indices are sorted by ascending fitness, and with the
  noise vectors taken in that order and paired with the utility weights, the loops of
  lines 363 to 377 compute the update that the spec writes: \<open>d_center = \<Sum>i. u i * z i\<close>;
  \<open>cov_grad = \<Sum>i. u i * (z i * (z i)\<^sup>T - I)\<close>, with trace \<open>tr\<close>, replaced by
  \<open>cov_grad - (tr / D) * I\<close>; \<open>d_A = 0.5 * (eta_sigma * (tr / D) * I + eta_b * cov_grad)\<close>;
  then \<open>mean + eta_mu * A * d_center\<close>, \<open>A * exp d_A\<close> and
  \<open>sigma * exp ((eta_sigma / 2) * (tr / D))\<close> are the new mean, \<open>A\<close> and \<open>sigma\<close>. The
  shapes are those that \<^verbatim>\<open>evolve\<close> keeps: \<open>lam\<close> weights and noise vectors of
  dimension \<open>D\<close>, a mean of dimension \<open>D\<close> and a \<open>D\<close> by \<open>D\<close> matrix \<open>A\<close>.
\<close>

theorem natural_gradient_update:
  assumes "length u = lam" "0 < lam" "\<forall>i<lam. length (z ! i) = D"
    and "length (mean alg) = D" "length (A alg) = D" "\<forall>j<D. length (A alg ! j) = D"
  shows "update_distribution mexp D lam u etas (alg, pop, z, x) =
           (case spec_update mexp D lam u etas (ranked pop lam z) (distribution alg) of
              (mean', A', sigma') \<Rightarrow> (alg\<lparr>mean := mean', A := A', sigma := sigma'\<rparr>, pop, z, x)) \<and>
         length (sorted_indices pop lam) = lam \<and> set (sorted_indices pop lam) = {0..<lam} \<and>
         sorted (map (\<lambda>a. get_f pop ! a ! 0) (sorted_indices pop lam))"
proof -
  obtain eta_mu eta_sigma eta_b where etas: "etas = (eta_mu, eta_sigma, eta_b)" by (cases etas)
  let ?zs = "ranked pop lam z"
  let ?s = "sorted_indices pop lam"
  let ?I = "MatrixXd_Identity D D"
  let ?tr = "spec_trace D lam u ?zs"
  let ?cov = "spec_cov_grad lam u ?zs"
  let ?d = "spec_d_center lam u ?zs"
  have d: "d_center_of u z ?s = tabulate_vector D ?d"
    by (rule d_center_of_ranked[OF assms(1,2,3)])
  have c: "cov_grad_of D u z ?s = tabulate_matrix D ?cov"
    by (rule cov_grad_of_ranked[OF assms(1,2,3)])
  have tr: "trace (tabulate_matrix D ?cov) = ?tr"
    by (simp add: trace_tabulate spec_trace_def)
  have c': "mat_sub (tabulate_matrix D ?cov) (mat_scale (?tr / real D) ?I) =
              tabulate_matrix D (\<lambda>j k. ?cov j k - ?tr / real D * (if j = k then 1 else 0))"
    by (simp add: identity_tabulate mat_scale_tabulate mat_sub_tabulate)
  have dA: "mat_scale (1 / 2)
              (mat_add (mat_scale (eta_sigma * ?tr / real D) ?I)
                 (mat_scale eta_b
                    (tabulate_matrix D (\<lambda>j k. ?cov j k - ?tr / real D * (if j = k then 1 else 0))))) =
            spec_d_A D lam u eta_sigma eta_b ?zs"
    by (simp add: identity_tabulate mat_scale_tabulate mat_add_tabulate spec_d_A_def)
  have A: "A alg = tabulate_matrix D (\<lambda>j k. A alg ! j ! k)"
    by (rule tabulate_matrix_of[OF assms(5,6)])
  have m: "mean alg = tabulate_vector D (\<lambda>j. mean alg ! j)"
    by (rule tabulate_vector_of[OF assms(4)])
  have "mat_vec (mat_scale eta_mu (A alg)) (tabulate_vector D ?d) =
          tabulate_vector D (\<lambda>j. \<Sum>k<D. eta_mu * A alg ! j ! k * ?d k)"
    by (subst A) (simp only: mat_scale_tabulate mat_vec_tabulate)
  also have "\<dots> = tabulate_vector D (\<lambda>j. eta_mu * (\<Sum>k<D. A alg ! j ! k * ?d k))"
    by (simp add: sum_distrib_left mult.assoc)
  finally have "vec_add (mean alg) (mat_vec (mat_scale eta_mu (A alg)) (tabulate_vector D ?d)) =
          tabulate_vector D (\<lambda>j. mean alg ! j + eta_mu * (\<Sum>k<D. A alg ! j ! k * ?d k))"
    using vec_add_tabulate[of D "\<lambda>j. mean alg ! j" "\<lambda>j. eta_mu * (\<Sum>k<D. A alg ! j ! k * ?d k)"] m
    by simp
  note mean' = this
  have "update_distribution mexp D lam u etas (alg, pop, z, x) =
           (case spec_update mexp D lam u etas ?zs (distribution alg) of
              (mean', A', sigma') \<Rightarrow> (alg\<lparr>mean := mean', A := A', sigma := sigma'\<rparr>, pop, z, x))"
    unfolding update_distribution_def etas prod.case Let_def d c tr c'
    by (simp only: dA mean' prod.case spec_update_def distribution_def times_divide_eq_right)
  then show ?thesis by (simp add: sorted_indices_facts)
qed

text \<open>Five noise vectors in one dimension, for the population of five individuals whose
  fitness is already ascending.\<close>

theorem natural_gradient_update_witness:
  "length (utility 5) = 5 \<and> list_all (\<lambda>v. length v = 1) [[1], [2], [3], [4], [5::real]] \<and>
   length (mean (make_xnes 1 (-1) True)) = 1 \<and> list_all (\<lambda>row. length row = 1) (A (make_xnes 1 (-1) True)) \<and>
   update_distribution mexp_id 1 5 (utility 5) (1, 9 / 5, 9 / 5)
       (make_xnes 1 (-1) True, population5, [[1], [2], [3], [4], [5]], replicate 5 [0]) =
     (case spec_update mexp_id 1 5 (utility 5) (1, 9 / 5, 9 / 5)
             (ranked population5 5 [[1], [2], [3], [4], [5]]) (distribution (make_xnes 1 (-1) True)) of
        (mean', A', sigma') \<Rightarrow>
          ((make_xnes 1 (-1) True)\<lparr>mean := mean', A := A', sigma := sigma'\<rparr>, population5,
           [[1], [2], [3], [4], [5]], replicate 5 [0])) \<and>
   sorted_indices population5 5 = [0, 1, 2, 3, 4]"
proof -
  have u: "length (utility 5) = 5" by (simp add: utility_eq utility_raw_eq)
  have z: "\<forall>i<5. length ([[1], [2], [3], [4], [5::real]] ! i) = 1"
    by (simp add: less_Suc_eq numeral_eq_Suc)
  have a: "length (mean (make_xnes 1 (-1) True)) = 1" "length (A (make_xnes 1 (-1) True)) = 1"
    "\<forall>j<1. length (A (make_xnes 1 (-1) True) ! j) = 1"
    by (simp_all add: make_xnes_eq)
  have s: "sorted_indices population5 5 = [0, 1, 2, 3, 4]"
    by (simp add: sorted_indices_def population5_def upt5)
  show ?thesis
    using natural_gradient_update[OF u _ z a, of mexp_id "(1, 9 / 5, 9 / 5)" population5 "replicate 5 [0]"]
    by (simp add: u s make_xnes_eq)
qed

section \<open>The memory at the start of a call\<close>

lemma diagonal_loop:
  "n \<le> D \<Longrightarrow>
     fold (\<lambda>j M. set_coeff M j j (f j)) [0..<n] (MatrixXd_Identity D D) =
       map (\<lambda>j. map (\<lambda>k. if j = k then (if j < n then f j else 1) else 0) [0..<D]) [0..<D]"
proof (induction n)
  case 0
  show ?case by (simp add: MatrixXd_Identity_def)
next
  case (Suc n)
  let ?M = "\<lambda>n. map (\<lambda>j. map (\<lambda>k. if j = k then (if j < n then f j else 1) else 0) [0..<D]) [0..<D]"
  have "fold (\<lambda>j M. set_coeff M j j (f j)) [0..<Suc n] (MatrixXd_Identity D D) =
          set_coeff (?M n) n n (f n)"
    using Suc by simp
  also have "\<dots> = ?M (Suc n)"
  proof (rule nth_equalityI)
    show "length (set_coeff (?M n) n n (f n)) = length (?M (Suc n))"
      by (simp add: set_coeff_def)
  next
    fix j assume "j < length (set_coeff (?M n) n n (f n))"
    then have j: "j < D" by (simp add: set_coeff_def)
    show "set_coeff (?M n) n n (f n) ! j = ?M (Suc n) ! j"
    proof (rule nth_equalityI)
      show "length (set_coeff (?M n) n n (f n) ! j) = length (?M (Suc n) ! j)"
        using j Suc.prems by (cases "j = n") (simp_all add: set_coeff_def)
    next
      fix k assume "k < length (set_coeff (?M n) n n (f n) ! j)"
      then have k: "k < D" using j Suc.prems by (cases "j = n") (simp_all add: set_coeff_def)
      show "set_coeff (?M n) n n (f n) ! j ! k = ?M (Suc n) ! j ! k"
        using j k Suc.prems
        by (cases "j = n"; cases "k = n") (simp_all add: set_coeff_def)
    qed
  qed
  finally show ?case .
qed

lemma reset_or_retain_reset:
  assumes "length (mean alg) \<noteq> nx (get_problem pop) \<or> \<not> m_memory alg"
  shows "reset_or_retain alg pop =
     alg\<lparr>sigma := (if m_sigma0 alg = -1 then 1 else m_sigma0 alg),
         A := map (\<lambda>j. map (\<lambda>k. if j = k
                    then max (upper_bounds (get_problem pop) ! j - lower_bounds (get_problem pop) ! j)
                           (1 / 10 ^ 6) * (if m_sigma0 alg = -1 then 1 else m_sigma0 alg)
                    else 0) [0..<nx (get_problem pop)]) [0..<nx (get_problem pop)],
         mean := map (\<lambda>i. get_x pop ! best_idx pop ! i) [0..<nx (get_problem pop)]\<rparr>"
proof -
  let ?D = "nx (get_problem pop)"
  let ?m0 = "take ?D (mean alg) @ replicate (?D - length (mean alg)) 0"
  have "length ?m0 = ?D" by simp
  then have m: "fold (\<lambda>i m. m[i := get_x pop ! best_idx pop ! i]) [0..<?D] ?m0 =
      map (\<lambda>i. get_x pop ! best_idx pop ! i) [0..<?D]"
    using fold_assign[of ?D ?m0 "\<lambda>i. get_x pop ! best_idx pop ! i"] by simp
  have a: "fold (\<lambda>j M. set_coeff M j j (g j)) [0..<?D] (MatrixXd_Identity ?D ?D) =
      map (\<lambda>j. map (\<lambda>k. if j = k then g j else 0) [0..<?D]) [0..<?D]" for g
    using diagonal_loop[of ?D ?D g] by simp
  show ?thesis
    using assms unfolding reset_or_retain_def Let_def m a by auto
qed

lemma if_intro: "(c \<Longrightarrow> P) \<Longrightarrow> (\<not> c \<Longrightarrow> Q) \<Longrightarrow> (if c then P else Q)"
  by simp

lemma reset_or_retain_retain:
  "length (mean alg) = nx (get_problem pop) \<Longrightarrow> m_memory alg \<Longrightarrow> reset_or_retain alg pop = alg"
  by (simp add: reset_or_retain_def)

text \<open>
  Claim C5. In a call that passes the checks with a budget that is not zero, the
  generation loop starts from the state that lines 250 to 267 leave. If memory retention
  is disabled, or the stored mean does not have the dimension \<open>D\<close> of the problem, that
  state is reinitialized: \<open>sigma\<close> is \<open>sigma0\<close>, or 1 when \<open>sigma0\<close> is the sentinel
  \<open>-1\<close>; \<open>A\<close> is the diagonal matrix with the entries \<open>max (ub ! j - lb ! j) 1e-6 * sigma\<close>;
  the mean has the \<open>D\<close> coordinates of the decision vector of the best individual (and is
  that vector when it has \<open>D\<close> coordinates). Otherwise mean, \<open>A\<close> and \<open>sigma\<close> are those
  of the instance as the previous call left it.
\<close>

theorem memory_reset_or_retained:
  "(let D = nx (get_problem pop);
        lb = lower_bounds (get_problem pop); ub = upper_bounds (get_problem pop);
        alg' = reset_or_retain (alg\<lparr>m_log := []\<rparr>) pop
    in (if length (mean alg) \<noteq> D \<or> \<not> m_memory alg
        then sigma alg' = (if m_sigma0 alg = -1 then 1 else m_sigma0 alg) \<and>
             A alg' = map (\<lambda>j. map (\<lambda>k. if j = k then max (ub ! j - lb ! j) (1 / 10 ^ 6) * sigma alg'
                                            else 0) [0..<D]) [0..<D] \<and>
             mean alg' = map (\<lambda>i. get_x pop ! best_idx pop ! i) [0..<D] \<and>
             (if length (get_x pop ! best_idx pop) = D then mean alg' = get_x pop ! best_idx pop
              else True)
        else distribution alg' = distribution alg) \<and>
       (if nc (get_problem pop) = 0 \<and> nf (get_problem pop) = 1 \<and> 4 \<le> pop_size pop \<and> m_gen alg \<noteq> 0
        then evolve mexp alg pop =
               map_option (\<lambda>(alg, pop, z, x). (alg, Inr pop))
                 (generations mexp D lb ub (pop_size pop) (fevals (get_problem pop))
                    (utility (pop_size pop)) (learning_rates alg D) 1
                    (alg', pop, replicate (pop_size pop) (VectorXd_Zero D),
                     replicate (pop_size pop) (VectorXd_Zero D)))
        else True))"
proof -
  let ?D = "nx (get_problem pop)"
  let ?a = "alg\<lparr>m_log := []\<rparr>"
  let ?xb = "get_x pop ! best_idx pop"
  have xb: "map (\<lambda>i. ?xb ! i) [0..<?D] = ?xb" if "length ?xb = ?D"
    using that map_nth[of ?xb] by simp
  have reset: "sigma (reset_or_retain ?a pop) = (if m_sigma0 alg = -1 then 1 else m_sigma0 alg) \<and>
       A (reset_or_retain ?a pop) =
         map (\<lambda>j. map (\<lambda>k. if j = k
              then max (upper_bounds (get_problem pop) ! j - lower_bounds (get_problem pop) ! j)
                     (1 / 10 ^ 6) * sigma (reset_or_retain ?a pop)
              else 0) [0..<?D]) [0..<?D] \<and>
       mean (reset_or_retain ?a pop) = map (\<lambda>i. ?xb ! i) [0..<?D] \<and>
       (if length ?xb = ?D then mean (reset_or_retain ?a pop) = ?xb else True)"
    if c: "length (mean alg) \<noteq> ?D \<or> \<not> m_memory alg"
  proof -
    have "length (mean ?a) \<noteq> nx (get_problem pop) \<or> \<not> m_memory ?a" using c by simp
    note r = reset_or_retain_reset[OF this]
    show ?thesis unfolding r using xb by simp
  qed
  have retain: "distribution (reset_or_retain ?a pop) = distribution alg"
    if c: "\<not> (length (mean alg) \<noteq> ?D \<or> \<not> m_memory alg)"
  proof -
    have "reset_or_retain ?a pop = ?a" using c by (simp add: reset_or_retain_retain)
    then show ?thesis by (simp add: distribution_def)
  qed
  have rates: "learning_rates ?a ?D = learning_rates alg ?D"
    by (simp add: learning_rates_def)
  have run: "evolve mexp alg pop =
               map_option (\<lambda>(alg, pop, z, x). (alg, Inr pop))
                 (generations mexp ?D (lower_bounds (get_problem pop)) (upper_bounds (get_problem pop))
                    (pop_size pop) (fevals (get_problem pop))
                    (utility (pop_size pop)) (learning_rates alg ?D) 1
                    (reset_or_retain ?a pop, pop, replicate (pop_size pop) (VectorXd_Zero ?D),
                     replicate (pop_size pop) (VectorXd_Zero ?D)))"
    if "nc (get_problem pop) = 0 \<and> nf (get_problem pop) = 1 \<and> 4 \<le> pop_size pop \<and> m_gen alg \<noteq> 0"
  proof -
    from that have "nc (get_problem pop) = 0" "nf (get_problem pop) = 1" "4 \<le> pop_size pop"
      "m_gen alg \<noteq> 0" by simp_all
    from evolve_valid[OF this, of mexp] show ?thesis unfolding rates .
  qed
  show ?thesis
    unfolding Let_def
    by (rule conjI; rule if_intro) (erule reset, erule retain, erule run, rule TrueI)
qed

text \<open>Five individuals on \<open>[-5, 5]\<close>, the best at 1: without memory the state becomes
  \<open>sigma = 1\<close>, \<open>A = [[10]]\<close>, \<open>mean = [1]\<close>; with memory the constructor state stays.\<close>

lemma best_population5: "best_idx population5 = 0"
  by (simp add: best_idx_def population5_def)

theorem memory_reset_or_retained_witness:
  "sigma (reset_or_retain ((make_xnes 1 (-1) False)\<lparr>m_log := []\<rparr>) population5) = 1 \<and>
   A (reset_or_retain ((make_xnes 1 (-1) False)\<lparr>m_log := []\<rparr>) population5) = [[10]] \<and>
   mean (reset_or_retain ((make_xnes 1 (-1) False)\<lparr>m_log := []\<rparr>) population5) = [1] \<and>
   distribution (reset_or_retain ((make_xnes 1 (-1) True)\<lparr>m_log := []\<rparr>) population5) = ([0], [[1]], -1)"
proof -
  have p: "nx (get_problem population5) = 1" "lower_bounds (get_problem population5) = [-5]"
    "upper_bounds (get_problem population5) = [5]" "get_x population5 ! 0 = [1]"
    by (simp_all add: population5_def sphere_def)
  have m: "m_memory (make_xnes 1 (-1) False) = False" "m_sigma0 (make_xnes 1 (-1) False) = -1"
    "m_memory (make_xnes 1 (-1) True) = True" "mean (make_xnes 1 (-1) True) = [0]"
    "distribution (make_xnes 1 (-1) True) = ([0], [[1]], -1)"
    by (simp_all add: make_xnes_eq distribution_def)
  show ?thesis
    using memory_reset_or_retained[of population5 "make_xnes 1 (-1) False" mexp_id, unfolded Let_def, THEN conjunct1]
      memory_reset_or_retained[of population5 "make_xnes 1 (-1) True" mexp_id, unfolded Let_def, THEN conjunct1]
    by (simp add: Let_def p m best_population5)
qed

section \<open>Sampling and bound repair\<close>

lemma redrawn_in_bounds:
  fixes l u r :: real
  assumes "l \<le> u" "0 \<le> r" "r < 1"
  shows "l \<le> l + r * (u - l) \<and> l + r * (u - l) \<le> u"
proof -
  have "0 \<le> r * (u - l)" using assms by simp
  moreover have "r * (u - l) \<le> 1 * (u - l)"
    using assms by (intro mult_right_mono) simp_all
  ultimately show ?thesis by simp
qed

lemma fix_bounds_loop:
  assumes "n \<le> length xi"
    and "\<forall>j<n. lb ! j \<le> ub ! j"
    and "\<forall>k. 0 \<le> uniform_tape e k \<and> uniform_tape e k < 1"
  shows "case fix_bounds n lb ub xi e of
           (xi', e') \<Rightarrow>
             length xi' = length xi \<and> uniform_tape e' = uniform_tape e \<and>
             (\<forall>j<n. lb ! j \<le> xi' ! j \<and> xi' ! j \<le> ub ! j \<and>
                     (if lb ! j \<le> xi ! j \<and> xi ! j \<le> ub ! j then xi' ! j = xi ! j
                      else \<exists>k. xi' ! j = lb ! j + uniform_tape e k * (ub ! j - lb ! j))) \<and>
             (\<forall>j. n \<le> j \<longrightarrow> xi' ! j = xi ! j)"
  using assms
proof (induction n)
  case 0
  show ?case by (simp add: fix_bounds_def)
next
  case (Suc n)
  obtain xi' e' where r: "fix_bounds n lb ub xi e = (xi', e')" by (cases "fix_bounds n lb ub xi e")
  have ih: "length xi' = length xi" "uniform_tape e' = uniform_tape e"
    "\<forall>j<n. lb ! j \<le> xi' ! j \<and> xi' ! j \<le> ub ! j \<and>
                     (if lb ! j \<le> xi ! j \<and> xi ! j \<le> ub ! j then xi' ! j = xi ! j
                      else \<exists>k. xi' ! j = lb ! j + uniform_tape e k * (ub ! j - lb ! j))"
    "\<forall>j. n \<le> j \<longrightarrow> xi' ! j = xi ! j"
    using Suc.IH Suc.prems by (simp_all add: r)
  have n: "n < length xi'" "lb ! n \<le> ub ! n" using Suc.prems ih(1) by simp_all
  have u: "0 \<le> uniform_tape e' (draws e')" "uniform_tape e' (draws e') < 1"
    using Suc.prems(3) ih(2) by simp_all
  have step: "fix_bounds (Suc n) lb ub xi e =
      (if xi' ! n < lb ! n \<or> xi' ! n > ub ! n
       then (xi'[n := lb ! n + uniform_tape e' (draws e') * (ub ! n - lb ! n)],
             e'\<lparr>draws := Suc (draws e')\<rparr>)
       else (xi', e'))"
    using r by (simp add: fix_bounds_def randomly_distributed_number_def)
  show ?case
  proof (cases "xi' ! n < lb ! n \<or> xi' ! n > ub ! n")
    case False
    then show ?thesis
      using ih n by (auto simp: step less_Suc_eq)
  next
    case True
    have "xi' ! n = xi ! n" using ih(4) by simp
    moreover have "\<exists>k. lb ! n + uniform_tape e' (draws e') * (ub ! n - lb ! n) =
                       lb ! n + uniform_tape e k * (ub ! n - lb ! n)"
      using ih(2) by auto
    ultimately show ?thesis
      using True ih n redrawn_in_bounds[OF n(2) u]
      by (auto simp: step less_Suc_eq nth_list_update)
  qed
qed

lemma sample_z_uniform_tape: "uniform_tape (snd (sample_z D zi e)) = uniform_tape e"
proof (induction D)
  case 0
  show ?case by (simp add: sample_z_def)
next
  case (Suc D)
  obtain zi' e' where r: "sample_z D zi e = (zi', e')" by (cases "sample_z D zi e")
  then have "sample_z (Suc D) zi e =
      (zi'[D := normal_tape e' (draws e')], e'\<lparr>draws := Suc (draws e')\<rparr>)"
    by (simp add: sample_z_def normally_distributed_number_def)
  with Suc r show ?case by simp
qed

lemma new_individual_eq:
  "new_individual D lb ub i (alg, pop, z, x) =
     (let zi = fst (sample_z D (z ! i) (m_e alg));
          e1 = snd (sample_z D (z ! i) (m_e alg));
          z' = z[i := zi];
          r = fix_bounds D lb ub (vec_add (mean alg) (mat_vec (A alg) (z' ! i))) e1;
          x' = x[i := fst r]
      in (alg\<lparr>m_e := snd r\<rparr>, set_x pop i (map (\<lambda>j. x' ! i ! j) [0..<D]), z', x'))"
  by (simp add: new_individual_def Let_def fold_assign split: prod.splits)

text \<open>What the body of the loop over \<open>i\<close> does for individual \<open>i\<close>.\<close>

lemma new_individual_repaired:
  assumes "length (mean alg) = D" "length (A alg) = D"
    and "i < length z" "i < length x" "i < length (get_x pop)"
    and "\<forall>j<D. lb ! j \<le> ub ! j"
    and "\<forall>k. 0 \<le> uniform_tape (m_e alg) k \<and> uniform_tape (m_e alg) k < 1"
    and "new_individual D lb ub i (alg, pop, z, x) = (alg', pop', z', x')"
  shows "mean alg' = mean alg \<and> A alg' = A alg \<and> uniform_tape (m_e alg') = uniform_tape (m_e alg)"
    and "length z' = length z \<and> length x' = length x \<and> length (get_x pop') = length (get_x pop)"
    and "z' = z[i := fst (sample_z D (z ! i) (m_e alg))]"
    and "x' = x[i := x' ! i]"
    and "get_x pop' = (get_x pop)[i := x' ! i]"
    and "length (x' ! i) = D"
    and "\<forall>j<D. lb ! j \<le> x' ! i ! j \<and> x' ! i ! j \<le> ub ! j \<and>
           (if lb ! j \<le> vec_add (mean alg) (mat_vec (A alg) (z' ! i)) ! j \<and>
               vec_add (mean alg) (mat_vec (A alg) (z' ! i)) ! j \<le> ub ! j
            then x' ! i ! j = vec_add (mean alg) (mat_vec (A alg) (z' ! i)) ! j
            else \<exists>k. x' ! i ! j = lb ! j + uniform_tape (m_e alg) k * (ub ! j - lb ! j))"
proof -
  let ?zi = "fst (sample_z D (z ! i) (m_e alg))"
  let ?e1 = "snd (sample_z D (z ! i) (m_e alg))"
  let ?c = "vec_add (mean alg) (mat_vec (A alg) ?zi)"
  obtain xi e2 where r: "fix_bounds D lb ub ?c ?e1 = (xi, e2)"
    by (cases "fix_bounds D lb ub ?c ?e1")
  have c: "length ?c = D" using assms(1,2) by (simp add: vec_add_def mat_vec_def)
  have u1: "\<forall>k. 0 \<le> uniform_tape ?e1 k \<and> uniform_tape ?e1 k < 1"
    using assms(7) by (simp add: sample_z_uniform_tape)
  have fb: "length xi = D" "uniform_tape e2 = uniform_tape ?e1"
    "\<forall>j<D. lb ! j \<le> xi ! j \<and> xi ! j \<le> ub ! j \<and>
             (if lb ! j \<le> ?c ! j \<and> ?c ! j \<le> ub ! j then xi ! j = ?c ! j
              else \<exists>k. xi ! j = lb ! j + uniform_tape (m_e alg) k * (ub ! j - lb ! j))"
    using fix_bounds_loop[of D ?c lb ub ?e1] c assms(6) u1
    by (simp_all add: r sample_z_uniform_tape cong: if_cong)
  have res: "alg' = alg\<lparr>m_e := e2\<rparr>" "z' = z[i := ?zi]" "x' = x[i := xi]"
    "pop' = set_x pop i (map (\<lambda>j. xi ! j) [0..<D])"
    using assms(3,4,8) by (simp_all add: new_individual_eq Let_def r)
  have xi: "x' ! i = xi" "z' ! i = ?zi" using assms(3,4) by (simp_all add: res)
  have dumb: "map (\<lambda>j. xi ! j) [0..<D] = xi" using fb(1) map_nth[of xi] by simp
  show "mean alg' = mean alg \<and> A alg' = A alg \<and> uniform_tape (m_e alg') = uniform_tape (m_e alg)"
    by (simp add: res fb(2) sample_z_uniform_tape)
  show "length z' = length z \<and> length x' = length x \<and> length (get_x pop') = length (get_x pop)"
    by (simp add: res set_x_def Let_def)
  show "z' = z[i := fst (sample_z D (z ! i) (m_e alg))]" by (simp add: res)
  show "x' = x[i := x' ! i]" unfolding xi by (rule res)
  show "get_x pop' = (get_x pop)[i := x' ! i]" by (simp add: xi res(4) dumb set_x_def Let_def)
  show "length (x' ! i) = D" by (simp add: xi fb(1))
  show "\<forall>j<D. lb ! j \<le> x' ! i ! j \<and> x' ! i ! j \<le> ub ! j \<and>
           (if lb ! j \<le> vec_add (mean alg) (mat_vec (A alg) (z' ! i)) ! j \<and>
               vec_add (mean alg) (mat_vec (A alg) (z' ! i)) ! j \<le> ub ! j
            then x' ! i ! j = vec_add (mean alg) (mat_vec (A alg) (z' ! i)) ! j
            else \<exists>k. x' ! i ! j = lb ! j + uniform_tape (m_e alg) k * (ub ! j - lb ! j))"
    using fb(3) by (simp add: xi)
qed

lemma new_individuals_loop:
  assumes "length (mean alg) = D" "length (A alg) = D"
    and "lam \<le> length z" "lam \<le> length x" "lam \<le> length (get_x pop)"
    and "\<forall>j<D. lb ! j \<le> ub ! j"
    and "\<forall>k. 0 \<le> uniform_tape (m_e alg) k \<and> uniform_tape (m_e alg) k < 1"
    and "n \<le> lam"
  shows "case new_individuals D lb ub n (alg, pop, z, x) of
           (alg', pop', z', x') \<Rightarrow>
             (mean alg' = mean alg \<and> A alg' = A alg \<and>
              uniform_tape (m_e alg') = uniform_tape (m_e alg)) \<and>
             (length z' = length z \<and> length x' = length x \<and>
              length (get_x pop') = length (get_x pop)) \<and>
             (\<forall>i<n. get_x pop' ! i = x' ! i \<and> length (x' ! i) = D \<and>
                (\<forall>j<D. lb ! j \<le> x' ! i ! j \<and> x' ! i ! j \<le> ub ! j \<and>
                   (if lb ! j \<le> vec_add (mean alg) (mat_vec (A alg) (z' ! i)) ! j \<and>
                       vec_add (mean alg) (mat_vec (A alg) (z' ! i)) ! j \<le> ub ! j
                    then x' ! i ! j = vec_add (mean alg) (mat_vec (A alg) (z' ! i)) ! j
                    else \<exists>k. x' ! i ! j = lb ! j + uniform_tape (m_e alg) k * (ub ! j - lb ! j))))"
  using assms(8)
proof (induction n)
  case 0
  show ?case by (simp add: new_individuals_def)
next
  case (Suc n)
  obtain a1 p1 z1 x1 where s1: "new_individuals D lb ub n (alg, pop, z, x) = (a1, p1, z1, x1)"
    by (cases "new_individuals D lb ub n (alg, pop, z, x)")
  obtain a2 p2 z2 x2 where s2: "new_individual D lb ub n (a1, p1, z1, x1) = (a2, p2, z2, x2)"
    by (cases "new_individual D lb ub n (a1, p1, z1, x1)")
  have run: "new_individuals D lb ub (Suc n) (alg, pop, z, x) = (a2, p2, z2, x2)"
    using s1 s2 by (simp add: new_individuals_def)
  have ih: "mean a1 = mean alg" "A a1 = A alg" "uniform_tape (m_e a1) = uniform_tape (m_e alg)"
    "length z1 = length z" "length x1 = length x" "length (get_x p1) = length (get_x pop)"
    "\<forall>i<n. get_x p1 ! i = x1 ! i \<and> length (x1 ! i) = D \<and>
                (\<forall>j<D. lb ! j \<le> x1 ! i ! j \<and> x1 ! i ! j \<le> ub ! j \<and>
                   (if lb ! j \<le> vec_add (mean alg) (mat_vec (A alg) (z1 ! i)) ! j \<and>
                       vec_add (mean alg) (mat_vec (A alg) (z1 ! i)) ! j \<le> ub ! j
                    then x1 ! i ! j = vec_add (mean alg) (mat_vec (A alg) (z1 ! i)) ! j
                    else \<exists>k. x1 ! i ! j = lb ! j + uniform_tape (m_e alg) k * (ub ! j - lb ! j)))"
    using Suc by (simp_all add: s1)
  have n: "n < length z1" "n < length x1" "n < length (get_x p1)"
    using Suc.prems assms(3,4,5) ih(4,5,6) by simp_all
  have m: "length (mean a1) = D" "length (A a1) = D"
    "\<forall>k. 0 \<le> uniform_tape (m_e a1) k \<and> uniform_tape (m_e a1) k < 1"
    using assms(1,2,7) ih(1,2,3) by simp_all
  note st = new_individual_repaired[OF m(1,2) n assms(6) m(3) s2]
  have old: "z2 ! i = z1 ! i" "x2 ! i = x1 ! i" "get_x p2 ! i = get_x p1 ! i" if "i < n" for i
  proof -
    have "z2 ! i = z1[n := fst (sample_z D (z1 ! n) (m_e a1))] ! i" using st(3) by simp
    then show "z2 ! i = z1 ! i" using that by simp
    have "x2 ! i = x1[n := x2 ! n] ! i" using st(4) by simp
    then show "x2 ! i = x1 ! i" using that by simp
    show "get_x p2 ! i = get_x p1 ! i" using st(5) that by simp
  qed
  have "get_x p2 ! i = x2 ! i \<and> length (x2 ! i) = D \<and>
                (\<forall>j<D. lb ! j \<le> x2 ! i ! j \<and> x2 ! i ! j \<le> ub ! j \<and>
                   (if lb ! j \<le> vec_add (mean alg) (mat_vec (A alg) (z2 ! i)) ! j \<and>
                       vec_add (mean alg) (mat_vec (A alg) (z2 ! i)) ! j \<le> ub ! j
                    then x2 ! i ! j = vec_add (mean alg) (mat_vec (A alg) (z2 ! i)) ! j
                    else \<exists>k. x2 ! i ! j = lb ! j + uniform_tape (m_e alg) k * (ub ! j - lb ! j)))"
    if "i < Suc n" for i
  proof (cases "i = n")
    case True
    have "get_x p2 ! n = x2 ! n" using st(5) n(3) by simp
    then show ?thesis using st(6,7) by (simp add: True ih(1,2,3) cong: if_cong)
  next
    case False
    then have "i < n" using that by simp
    then show ?thesis using ih(7) by (simp add: old)
  qed
  then show ?case
    using st(1,2) ih(1-6) by (simp add: run)
qed

lemma change_seed_parts:
  assumes "change_seed (alg, pop, z, x) = (alg', pop', z', x')"
  shows "mean alg' = mean alg" "A alg' = A alg" "uniform_tape (m_e alg') = uniform_tape (m_e alg)"
    "get_x pop' = get_x pop" "z' = z" "x' = x"
  using assms
  by (auto simp: change_seed_def set_seed_problem_def uniform_int_distribution_def
        split: if_splits)

text \<open>
  Claim C6. In every generation, after the loop over the individuals (lines 292 to
  311), for every individual \<open>i\<close> the candidate \<open>x ! i\<close> has all its \<open>D\<close> coordinates
  within the bounds and is the decision vector of individual \<open>i\<close> in the population; a
  coordinate of \<open>mean + A * z ! i\<close> that was within the bounds is kept, and one that
  was not is \<open>lb ! j + r * (ub ! j - lb ! j)\<close> for a uniform draw \<open>r\<close> of the engine.
  The noise vectors after the body for individual \<open>i\<close> are those before it with
  \<open>z ! i\<close> replaced by the normal draws: the repair does not touch them. The bounds
  are ordered, as every problem has them, and a uniform draw lies in \<open>[0, 1)\<close>.
\<close>

theorem candidates_repaired_into_bounds:
  assumes "length (mean alg) = D" "length (A alg) = D"
    and "length z = lam" "length x = lam" "pop_size pop = lam"
    and "\<forall>j<D. lb ! j \<le> ub ! j"
    and "\<forall>k. 0 \<le> uniform_tape (m_e alg) k \<and> uniform_tape (m_e alg) k < 1"
  shows "(case new_individuals D lb ub lam (change_seed (alg, pop, z, x)) of
           (alg', pop', z', x') \<Rightarrow>
             \<forall>i<lam. get_x pop' ! i = x' ! i \<and> length (x' ! i) = D \<and>
                (\<forall>j<D. lb ! j \<le> x' ! i ! j \<and> x' ! i ! j \<le> ub ! j \<and>
                   (if lb ! j \<le> vec_add (mean alg) (mat_vec (A alg) (z' ! i)) ! j \<and>
                       vec_add (mean alg) (mat_vec (A alg) (z' ! i)) ! j \<le> ub ! j
                    then x' ! i ! j = vec_add (mean alg) (mat_vec (A alg) (z' ! i)) ! j
                    else \<exists>k. x' ! i ! j = lb ! j + uniform_tape (m_e alg) k * (ub ! j - lb ! j)))) \<and>
         (\<forall>i<lam. fst (snd (snd (new_individual D lb ub i (alg, pop, z, x)))) =
                    z[i := fst (sample_z D (z ! i) (m_e alg))])"
proof
  obtain a0 p0 z0 x0 where s0: "change_seed (alg, pop, z, x) = (a0, p0, z0, x0)"
    by (cases "change_seed (alg, pop, z, x)")
  note c = change_seed_parts[OF s0]
  have h: "length (mean a0) = D" "length (A a0) = D" "lam \<le> length z0" "lam \<le> length x0"
    "lam \<le> length (get_x p0)"
    "\<forall>k. 0 \<le> uniform_tape (m_e a0) k \<and> uniform_tape (m_e a0) k < 1"
    using assms c by (simp_all add: pop_size_def)
  show "case new_individuals D lb ub lam (change_seed (alg, pop, z, x)) of
           (alg', pop', z', x') \<Rightarrow>
             \<forall>i<lam. get_x pop' ! i = x' ! i \<and> length (x' ! i) = D \<and>
                (\<forall>j<D. lb ! j \<le> x' ! i ! j \<and> x' ! i ! j \<le> ub ! j \<and>
                   (if lb ! j \<le> vec_add (mean alg) (mat_vec (A alg) (z' ! i)) ! j \<and>
                       vec_add (mean alg) (mat_vec (A alg) (z' ! i)) ! j \<le> ub ! j
                    then x' ! i ! j = vec_add (mean alg) (mat_vec (A alg) (z' ! i)) ! j
                    else \<exists>k. x' ! i ! j = lb ! j + uniform_tape (m_e alg) k * (ub ! j - lb ! j)))"
    using new_individuals_loop[OF h(1-5) assms(6) h(6) order_refl]
    by (simp add: s0 c(1,2,3) cong: if_cong split: prod.splits)
next
  show "\<forall>i<lam. fst (snd (snd (new_individual D lb ub i (alg, pop, z, x)))) =
                    z[i := fst (sample_z D (z ! i) (m_e alg))]"
    by (simp add: new_individual_eq Let_def)
qed

text \<open>An instance whose mean, 7, is out of the bounds: every candidate is drawn again.\<close>

lemma sampled_out_of_bounds:
  "new_individuals 1 [-5] [5] 5
     (change_seed ((make_xnes 1 (-1) True)\<lparr>mean := [7]\<rparr>, population5, replicate 5 [0], replicate 5 [0])) =
   ((make_xnes 1 (-1) True)\<lparr>mean := [7], m_e := (zero_engine 0)\<lparr>draws := 10\<rparr>\<rparr>,
    \<lparr>get_problem = sphere\<lparr>fevals := 5\<rparr>,
     get_x = [[-5], [-5], [-5], [-5], [-5]], get_f = [[25], [25], [25], [25], [25]]\<rparr>,
    [[0], [0], [0], [0], [0]], [[-5], [-5], [-5], [-5], [-5]])"
  by (simp add: make_xnes_eq population5_def sphere_def change_seed_def new_individuals_def upt5
    new_individual_def sample_z_def fix_bounds_def zero_engine_def normally_distributed_number_def
    randomly_distributed_number_def vec_add_def mat_vec_def dot_def set_x_def Let_def numeral_eq_Suc)

theorem candidates_repaired_into_bounds_witness:
  "length (mean ((make_xnes 1 (-1) True)\<lparr>mean := [7]\<rparr>)) = 1 \<and>
   length (A ((make_xnes 1 (-1) True)\<lparr>mean := [7]\<rparr>)) = 1 \<and>
   length (replicate 5 [0::real]) = 5 \<and> pop_size population5 = 5 \<and>
   [-5::real] ! 0 \<le> [5] ! 0 \<and>
   (\<forall>k. 0 \<le> uniform_tape (m_e ((make_xnes 1 (-1) True)\<lparr>mean := [7]\<rparr>)) k \<and>
        uniform_tape (m_e ((make_xnes 1 (-1) True)\<lparr>mean := [7]\<rparr>)) k < 1) \<and>
   (case new_individuals 1 [-5] [5] 5
           (change_seed ((make_xnes 1 (-1) True)\<lparr>mean := [7]\<rparr>, population5,
              replicate 5 [0], replicate 5 [0])) of
      (alg', pop', z', x') \<Rightarrow>
        get_x pop' ! 3 = x' ! 3 \<and> [-5] ! 0 \<le> x' ! 3 ! 0 \<and> x' ! 3 ! 0 \<le> [5] ! 0 \<and>
        x' ! 3 ! 0 \<noteq> vec_add [7] (mat_vec [[1]] (z' ! 3)) ! 0)"
proof -
  let ?a = "(make_xnes 1 (-1) True)\<lparr>mean := [7]\<rparr>"
  have h: "length (mean ?a) = 1" "length (A ?a) = 1" "length (replicate 5 [0::real]) = 5"
    "pop_size population5 = 5" "\<forall>j<1. [-5::real] ! j \<le> [5] ! j"
    "\<forall>k. 0 \<le> uniform_tape (m_e ?a) k \<and> uniform_tape (m_e ?a) k < 1"
    by (simp_all add: make_xnes_eq population_facts zero_engine_def)
  note t = candidates_repaired_into_bounds[OF h(1,2,3,3,4,5,6), THEN conjunct1]
  have "case new_individuals 1 [-5] [5] 5 (change_seed (?a, population5, replicate 5 [0], replicate 5 [0])) of
      (alg', pop', z', x') \<Rightarrow>
        get_x pop' ! 3 = x' ! 3 \<and> [-5] ! 0 \<le> x' ! 3 ! 0 \<and> x' ! 3 ! 0 \<le> [5] ! 0"
    using t by (auto split: prod.splits)
  moreover have "case new_individuals 1 [-5] [5] 5 (change_seed (?a, population5, replicate 5 [0], replicate 5 [0])) of
      (alg', pop', z', x') \<Rightarrow> x' ! 3 ! 0 \<noteq> vec_add [7] (mat_vec [[1]] (z' ! 3)) ! 0"
    unfolding sampled_out_of_bounds by (simp add: vec_add_def mat_vec_def dot_def)
  ultimately show ?thesis
    using h(1,2,3,4,6) by (simp split: prod.splits)
qed

section \<open>The utility weights\<close>

text \<open>
  Claim C7. For every population size \<open>lam\<close> of at least 5, the \<open>lam\<close> utility weights
  that \<^verbatim>\<open>evolve\<close> computes (the raw weights \<open>max 0 (ln (lam / 2 + 1) - ln (i + 1))\<close>,
  divided by their sum, minus \<open>1 / lam\<close>) sum to zero. The sum is exact over the reals:
  what is left on \<^verbatim>\<open>double\<close> is rounding.
\<close>

theorem utility_sum_zero:
  "5 \<le> lam \<Longrightarrow>
     length (utility lam) = lam \<and> sum_list (utility lam) = 0"
  using utility_weights_cancel[of lam] by (simp add: utility_eq utility_raw_eq)

theorem utility_sum_zero_witness:
  "(5::nat) \<le> 5 \<and> length (utility 5) = 5 \<and> sum_list (utility 5) = 0"
  using utility_sum_zero[of 5] by simp

section \<open>The exit conditions\<close>

lemma word_mod_10: "((gen::32 word) mod 10 = 0) = (10 dvd unat gen)"
proof -
  have "(gen mod 10 = 0) = (unat (gen mod 10) = 0)" by (simp add: unat_eq_0)
  also have "unat (gen mod 10) = unat gen mod 10" by (simp add: unat_mod)
  finally show ?thesis by (simp add: dvd_eq_mod_eq_0)
qed

lemma sampling_A: "A (fst (new_individuals D lb ub lam (change_seed s))) = A (fst s)"
  using arg_cong[where f = A, OF sampling_alg] by simp

lemma sampling_tolerances:
  "m_xtol (fst (new_individuals D lb ub lam (change_seed s))) = m_xtol (fst s)"
  "m_ftol (fst (new_individuals D lb ub lam (change_seed s))) = m_ftol (fst s)"
  using arg_cong[where f = m_xtol, OF sampling_alg] arg_cong[where f = m_ftol, OF sampling_alg]
  by simp_all

text \<open>The sampling of one generation on the population of five individuals, with the
  engine whose draws are all zero: every candidate is the mean.\<close>

lemma sampled_population5:
  "new_individuals 1 [-5] [5] 5
     (change_seed (make_xnes gen (-1) True, population5, replicate 5 [0], replicate 5 [0])) =
   ((make_xnes gen (-1) True)\<lparr>m_e := (zero_engine 0)\<lparr>draws := 5\<rparr>\<rparr>,
    \<lparr>get_problem = sphere\<lparr>fevals := 5\<rparr>,
     get_x = [[0], [0], [0], [0], [0]], get_f = [[0], [0], [0], [0], [0]]\<rparr>,
    [[0], [0], [0], [0], [0]], [[0], [0], [0], [0], [0]])"
  by (simp add: make_xnes_eq population5_def sphere_def change_seed_def new_individuals_def upt5
    new_individual_def sample_z_def fix_bounds_def zero_engine_def normally_distributed_number_def
    randomly_distributed_number_def vec_add_def mat_vec_def dot_def set_x_def Let_def numeral_eq_Suc)

text \<open>
  Claim C8. A generation leaves \<^verbatim>\<open>evolve\<close> early exactly when its number is a
  multiple of 10 and, for the population and noise vectors just sampled, the norm of
  \<open>A\<close> times the first noise vector \<open>z ! 0\<close> is below \<open>m_xtol\<close> or the absolute
  difference between the best and the worst fitness is below \<open>m_ftol\<close>. The population
  returned is then the one just sampled; otherwise the generation goes on to the log and
  the update, and the loop to the next generation. No generation whose number is not a
  multiple of 10 stops the loop.
\<close>

theorem early_exit_only_every_tenth_generation:
  "fst (generation mexp D lb ub lam fevals0 u etas gen (alg, pop, z, x)) =
     (case new_individuals D lb ub lam (change_seed (alg, pop, z, x)) of
        (alg', pop', z', x') \<Rightarrow>
          10 dvd unat gen \<and>
          (vec_norm (mat_vec (A alg) (z' ! 0)) < m_xtol alg \<or>
           \<bar>get_f pop' ! best_idx pop' ! 0 - get_f pop' ! worst_idx pop' ! 0\<bar> < m_ftol alg))
   \<and> (if fst (generation mexp D lb ub lam fevals0 u etas gen (alg, pop, z, x))
      then snd (generation mexp D lb ub lam fevals0 u etas gen (alg, pop, z, x)) =
             new_individuals D lb ub lam (change_seed (alg, pop, z, x))
      else snd (generation mexp D lb ub lam fevals0 u etas gen (alg, pop, z, x)) =
             update_distribution mexp D lam u etas
               (log_generation fevals0 gen (new_individuals D lb ub lam (change_seed (alg, pop, z, x)))))
   \<and> generations mexp D lb ub lam fevals0 u etas gen (alg, pop, z, x) =
       (if gen \<le> m_gen alg then
          if fst (generation mexp D lb ub lam fevals0 u etas gen (alg, pop, z, x))
          then Some (snd (generation mexp D lb ub lam fevals0 u etas gen (alg, pop, z, x)))
          else generations mexp D lb ub lam fevals0 u etas (gen + 1)
                 (snd (generation mexp D lb ub lam fevals0 u etas gen (alg, pop, z, x)))
        else Some (alg, pop, z, x))"
proof -
  let ?s = "(alg, pop, z, x)"
  let ?s2 = "new_individuals D lb ub lam (change_seed ?s)"
  obtain alg' pop' z' x' where s2: "?s2 = (alg', pop', z', x')" by (cases ?s2)
  have "A alg' = A alg" "m_xtol alg' = m_xtol alg" "m_ftol alg' = m_ftol alg"
    using sampling_A[of D lb ub lam ?s] sampling_tolerances[of D lb ub lam ?s] by (simp_all add: s2)
  then have "exit_condition gen ?s2 =
          (10 dvd unat gen \<and>
          (vec_norm (mat_vec (A alg) (z' ! 0)) < m_xtol alg \<or>
           \<bar>get_f pop' ! best_idx pop' ! 0 - get_f pop' ! worst_idx pop' ! 0\<bar> < m_ftol alg))"
    by (auto simp: s2 exit_condition_def Let_def word_mod_10)
  moreover have "generations mexp D lb ub lam fevals0 u etas gen ?s =
       (if gen \<le> m_gen alg then
          if fst (generation mexp D lb ub lam fevals0 u etas gen ?s)
          then Some (snd (generation mexp D lb ub lam fevals0 u etas gen ?s))
          else generations mexp D lb ub lam fevals0 u etas (gen + 1)
                 (snd (generation mexp D lb ub lam fevals0 u etas gen ?s))
        else Some ?s)"
    by (subst generations.simps) (simp add: Let_def)
  ultimately show ?thesis
    by (simp add: generation_def Let_def s2)
qed

text \<open>With the engine whose draws are all zero, the first noise vector is zero:
  generation 10 leaves early, generation 9 does not.\<close>

theorem early_exit_only_every_tenth_generation_witness:
  "fst (generation mexp_id 1 [-5] [5] 5 0 (utility 5) (1, 9 / 5, 9 / 5) 10
          (make_xnes 20 (-1) True, population5, replicate 5 [0], replicate 5 [0])) \<and>
   \<not> fst (generation mexp_id 1 [-5] [5] 5 0 (utility 5) (1, 9 / 5, 9 / 5) 9
          (make_xnes 20 (-1) True, population5, replicate 5 [0], replicate 5 [0]))"
  using early_exit_only_every_tenth_generation
          [of mexp_id 1 "[-5]" "[5]" 5 0 "utility 5" "(1, 9 / 5, 9 / 5)" 10
              "make_xnes 20 (-1) True" population5 "replicate 5 [0]" "replicate 5 [0]", THEN conjunct1,
            unfolded sampled_population5]
        early_exit_only_every_tenth_generation
          [of mexp_id 1 "[-5]" "[5]" 5 0 "utility 5" "(1, 9 / 5, 9 / 5)" 9
              "make_xnes 20 (-1) True" population5 "replicate 5 [0]" "replicate 5 [0]", THEN conjunct1,
            unfolded sampled_population5]
  by (simp add: make_xnes_eq vec_norm_def mat_vec_def dot_def best_idx_def worst_idx_def)

section \<open>A generation budget of zero\<close>

text \<open>
  Claim C9 says that every call on an instance with generation budget 0 returns the
  input population unchanged. The checks on the problem come before the test of the
  budget (lines 196 to 211): on a problem with a nonlinear constraint the call of an
  instance with budget 0 throws, and returns no population.
\<close>

theorem zero_budget_invalid_population_counterexample:
  "m_gen (make_xnes 0 (-1) False) = 0 \<and>
   evolve mexp_id (make_xnes 0 (-1) False) constrained_population5 =
     Some (make_xnes 0 (-1) False, Inl Nonlinear_constraints)"
  by (simp add: evolve_def population_facts make_xnes_eq)

text \<open>
  Claim C9, amended. For every call on an instance with generation budget 0 whose
  population passes the checks of \<^verbatim>\<open>evolve\<close> (no nonlinear constraint, one
  objective, at least 5 individuals), the input population is returned unchanged, and
  so is the instance. On a problem with nonlinear constraints, or with a number of
  objectives other than one, the call throws also when the budget is 0.
\<close>

theorem zero_budget_returns_population:
  assumes "m_gen alg = 0"
  shows "(if nc (get_problem pop) = 0 \<and> nf (get_problem pop) = 1 \<and> 5 \<le> pop_size pop
          then evolve mexp alg pop = Some (alg, Inr pop) else True) \<and>
         (if nc (get_problem pop) = 0 then True
          else evolve mexp alg pop = Some (alg, Inl Nonlinear_constraints)) \<and>
         (if nc (get_problem pop) = 0 \<and> nf (get_problem pop) = 1 then True
          else \<exists>e. evolve mexp alg pop = Some (alg, Inl e))"
  using assms by (simp add: evolve_def Let_def)

theorem zero_budget_returns_population_witness:
  "m_gen (make_xnes 0 (-1) False) = 0 \<and>
   nc (get_problem population5) = 0 \<and> nf (get_problem population5) = 1 \<and> 5 \<le> pop_size population5 \<and>
   evolve mexp_id (make_xnes 0 (-1) False) population5 = Some (make_xnes 0 (-1) False, Inr population5)"
proof -
  have g: "m_gen (make_xnes 0 (-1) False) = 0" by (simp add: make_xnes_eq)
  show ?thesis
    using zero_budget_returns_population[OF g, of population5 mexp_id, THEN conjunct1] g
    by (simp add: population_facts)
qed

section \<open>The state after construction\<close>

lemma xnes_ctor_Inr:
  assumes "xnes_ctor engine gen eta_mu eta_sigma eta_b sigma0 ftol xtol memory seed = Inr alg"
  shows "alg = \<lparr>m_gen = gen, m_eta_mu = eta_mu, m_eta_sigma = eta_sigma, m_eta_b = eta_b,
                m_sigma0 = sigma0, m_ftol = ftol, m_xtol = xtol, m_memory = memory,
                sigma = sigma0, mean = [0], A = [[1]],
                m_e = engine seed, m_seed = seed, m_verbosity = 0, m_log = []\<rparr>"
  using assms
  by (simp add: xnes_ctor_def VectorXd_Zero_def MatrixXd_Identity_def split: if_splits)

text \<open>
  Claim C10. Immediately after construction the distribution state is the mean \<open>[0]\<close>
  of dimension 1, the 1 by 1 identity matrix and \<open>sigma = sigma0\<close>, which may be the
  sentinel \<open>-1\<close>. So when such an instance with memory retention enabled is first called
  on a problem of dimension 1 (a call that passes the checks, with a budget that is not
  zero), the state is not reinitialized from the bounds and the best individual: the
  generation loop starts from the constructor state.
\<close>

theorem constructor_state_used_in_one_dimension:
  assumes "xnes_ctor engine gen eta_mu eta_sigma eta_b sigma0 ftol xtol memory seed = Inr alg"
  shows "mean alg = [0] \<and> A alg = [[1]] \<and> sigma alg = sigma0 \<and>
         (if nx (get_problem pop) = 1 \<and> memory \<and>
             nc (get_problem pop) = 0 \<and> nf (get_problem pop) = 1 \<and> 4 \<le> pop_size pop \<and> gen \<noteq> 0
          then reset_or_retain alg pop = alg \<and>
               evolve mexp alg pop =
                 map_option (\<lambda>(alg, pop, z, x). (alg, Inr pop))
                   (generations mexp 1 (lower_bounds (get_problem pop)) (upper_bounds (get_problem pop))
                      (pop_size pop) (fevals (get_problem pop)) (utility (pop_size pop))
                      (learning_rates alg 1) 1
                      (alg, pop, replicate (pop_size pop) [0], replicate (pop_size pop) [0]))
          else True)"
proof -
  note a = xnes_ctor_Inr[OF assms]
  have 1: "mean alg = [0] \<and> A alg = [[1]] \<and> sigma alg = sigma0" by (simp add: a)
  have l: "alg\<lparr>m_log := []\<rparr> = alg" by (simp add: a)
  have 2: "reset_or_retain alg pop = alg" if "nx (get_problem pop) = 1" "memory"
    using that by (simp add: reset_or_retain_def a)
  have 3: "evolve mexp alg pop =
                 map_option (\<lambda>(alg, pop, z, x). (alg, Inr pop))
                   (generations mexp 1 (lower_bounds (get_problem pop)) (upper_bounds (get_problem pop))
                      (pop_size pop) (fevals (get_problem pop)) (utility (pop_size pop))
                      (learning_rates alg 1) 1
                      (alg, pop, replicate (pop_size pop) [0], replicate (pop_size pop) [0]))"
    if "nx (get_problem pop) = 1" "memory" "nc (get_problem pop) = 0" "nf (get_problem pop) = 1"
       "4 \<le> pop_size pop" "gen \<noteq> 0"
  proof -
    have "m_gen alg \<noteq> 0" using that(6) by (simp add: a)
    then show ?thesis
      using evolve_valid[OF that(3,4,5), of alg mexp] 2[OF that(1,2)] that(1)
      by (simp add: l VectorXd_Zero_def)
  qed
  show ?thesis using 1 2 3 by simp
qed

text \<open>The instance constructed with automatic \<open>sigma0\<close> and memory retention, on the
  population of five individuals in one dimension: the loop starts with \<open>sigma = -1\<close>.\<close>

theorem constructor_state_used_in_one_dimension_witness:
  "xnes_ctor zero_engine 1 (-1) (-1) (-1) (-1) (1 / 10 ^ 6) (1 / 10 ^ 6) True 0 = Inr (make_xnes 1 (-1) True) \<and>
   nx (get_problem population5) = 1 \<and> nc (get_problem population5) = 0 \<and>
   nf (get_problem population5) = 1 \<and> 4 \<le> pop_size population5 \<and>
   sigma (make_xnes 1 (-1) True) = -1 \<and>
   reset_or_retain (make_xnes 1 (-1) True) population5 = make_xnes 1 (-1) True \<and>
   evolve mexp_id (make_xnes 1 (-1) True) population5 =
     map_option (\<lambda>(alg, pop, z, x). (alg, Inr pop))
       (generations mexp_id 1 (lower_bounds (get_problem population5))
          (upper_bounds (get_problem population5)) (pop_size population5)
          (fevals (get_problem population5)) (utility (pop_size population5))
          (learning_rates (make_xnes 1 (-1) True) 1) 1
          (make_xnes 1 (-1) True, population5, replicate (pop_size population5) [0],
           replicate (pop_size population5) [0]))"
proof -
  have c: "xnes_ctor zero_engine 1 (-1) (-1) (-1) (-1) (1 / 10 ^ 6) (1 / 10 ^ 6) True 0 =
             Inr (make_xnes 1 (-1) True)"
    by (simp add: make_xnes_def xnes_ctor_def)
  have p: "nx (get_problem population5) = 1 \<and> True \<and> nc (get_problem population5) = 0 \<and>
      nf (get_problem population5) = 1 \<and> 4 \<le> pop_size population5 \<and> (1::32 word) \<noteq> 0"
    by (simp add: population_facts)
  note t = constructor_state_used_in_one_dimension[OF c, of population5 mexp_id, unfolded if_P[OF p]]
  show ?thesis using t c by (simp add: population_facts)
qed

end
